theory Spec2Isabelle
  imports Main "HOL-Library.Word"
begin

unbundle bit_operations_syntax

section \<open>Errors\<close>

text \<open>
  A Go \<^verbatim>\<open>error\<close> value, as far as the handlers of
  \<^verbatim>\<open>pkg/restapi/kms/operation/operations.go\<close> look at one: its text
  (\<^verbatim>\<open>err.Error()\<close>, printed by \<^verbatim>\<open>%s\<close>) and its chain
  (\<^verbatim>\<open>errors.Is\<close>). The three kinds are the value of \<^verbatim>\<open>errors.New\<close>
  (a pointer: the number is its identity, so two calls with the same text differ), the
  value of \<^verbatim>\<open>fmt.Errorf\<close> with \<^verbatim>\<open>%w\<close> (its own text and the
  error it wraps) and \<^verbatim>\<open>base64.CorruptInputError\<close> (an integer offset).
\<close>

datatype go_error =
    errorString nat string
  | wrapError nat string go_error
  | CorruptInputError nat

function FormatInt :: "nat \<Rightarrow> string" where
  "FormatInt n =
     (if n < 10 then [char_of (48 + n)]
      else FormatInt (n div 10) @ [char_of (48 + n mod 10)])"
  by pat_completeness auto
termination
  by (relation "measure (\<lambda>n. n)") auto

fun Error :: "go_error \<Rightarrow> string" where
  "Error (errorString i s) = s"
| "Error (wrapError i s e) = s"
| "Error (CorruptInputError n) = ''illegal base64 data at input byte '' @ FormatInt n"

text \<open>
  \<^verbatim>\<open>errors.Is(err, target)\<close>: \<^verbatim>\<open>err\<close> or an error it wraps is
  \<^verbatim>\<open>target\<close>. None of the three kinds has an \<^verbatim>\<open>Is\<close> method.
\<close>

fun errors_Is :: "go_error \<Rightarrow> go_error \<Rightarrow> bool" where
  "errors_Is (wrapError i s e) target = (wrapError i s e = target \<or> errors_Is e target)"
| "errors_Is err target = (err = target)"

text \<open>
  Modelled from the spec: \<^verbatim>\<open>kmsservice.ErrInvalidSignature\<close>, a package variable
  of \<^verbatim>\<open>pkg/kms\<close>, another package of the repository. The wire contract gives
  its text, \<^verbatim>\<open>invalid signature\<close>; the identity 0 is reserved for it.
\<close>

definition ErrInvalidSignature :: go_error where
  "ErrInvalidSignature = errorString 0 ''invalid signature''"

section \<open>Constants of the package\<close>

definition keystoreIDQueryParam :: string where
  "keystoreIDQueryParam = ''keystoreID''"

definition keyIDQueryParam :: string where
  "keyIDQueryParam = ''keyID''"

definition kmsBasePath :: string where
  "kmsBasePath = ''/kms''"

definition keystoresEndpoint :: string where
  "keystoresEndpoint = kmsBasePath @ ''/keystores''"

definition keystoreEndpoint :: string where
  "keystoreEndpoint = keystoresEndpoint @ ''/{'' @ keystoreIDQueryParam @ ''}''"

definition keysEndpoint :: string where
  "keysEndpoint = keystoreEndpoint @ ''/keys''"

definition keyEndpoint :: string where
  "keyEndpoint = keysEndpoint @ ''/{'' @ keyIDQueryParam @ ''}''"

text \<open>The error messages are format strings with one \<^verbatim>\<open>%s\<close>, at the end.\<close>

definition receivedBadRequest :: "string \<Rightarrow> string" where
  "receivedBadRequest s = ''Received bad request: '' @ s"

definition createKeystoreFailure :: "string \<Rightarrow> string" where
  "createKeystoreFailure s = ''Failed to create a keystore: '' @ s"

definition createKMSProviderFailure :: "string \<Rightarrow> string" where
  "createKMSProviderFailure s = ''Failed to create a kms provider: '' @ s"

definition createKeyFailure :: "string \<Rightarrow> string" where
  "createKeyFailure s = ''Failed to create a key: '' @ s"

definition signMessageFailure :: "string \<Rightarrow> string" where
  "signMessageFailure s = ''Failed to sign a message: '' @ s"

definition verifyMessageFailure :: "string \<Rightarrow> string" where
  "verifyMessageFailure s = ''Failed to verify a message: '' @ s"

definition encryptMessageFailure :: "string \<Rightarrow> string" where
  "encryptMessageFailure s = ''Failed to encrypt a message: '' @ s"

definition decryptMessageFailure :: "string \<Rightarrow> string" where
  "decryptMessageFailure s = ''Failed to decrypt a message: '' @ s"

abbreviation StatusOK :: nat where
  "StatusOK \<equiv> 200"

abbreviation StatusCreated :: nat where
  "StatusCreated \<equiv> 201"

abbreviation StatusBadRequest :: nat where
  "StatusBadRequest \<equiv> 400"

abbreviation StatusInternalServerError :: nat where
  "StatusInternalServerError \<equiv> 500"

section \<open>The standard library, as the handlers use it\<close>

subsection \<open>Replacing in strings\<close>

text \<open>
  \<^verbatim>\<open>strings.ReplaceAll(s, old, new)\<close>: the occurrences of \<^verbatim>\<open>old\<close> that do
  not overlap, from the left, become \<^verbatim>\<open>new\<close>; what is put in is not read again.
  For an empty \<^verbatim>\<open>old\<close> Go puts \<^verbatim>\<open>new\<close> before the string and after
  every UTF-8 sequence; the model does so after every byte, which is the same on ASCII
  (the package only ever passes the constant \<^verbatim>\<open>{keystoreID}\<close>).
\<close>

function ReplaceAll :: "string \<Rightarrow> string \<Rightarrow> string \<Rightarrow> string" where
  "ReplaceAll s old new =
     (if old = [] then new @ concat (map (\<lambda>c. c # new) s)
      else if s = [] then []
      else if take (length old) s = old then new @ ReplaceAll (drop (length old) s) old new
      else hd s # ReplaceAll (tl s) old new)"
  by pat_completeness auto
termination
  by (relation "measure (\<lambda>(s, old, new). length s)") auto

text \<open>
  \<^verbatim>\<open>strings.NewReplacer(old1, new1, old2, new2, ...).Replace(s)\<close>, the generic
  replacer (more than one pair, keys longer than a byte). At each position the key that
  comes first in the argument list among those that are a prefix of the rest wins
  (\<^verbatim>\<open>lookup\<close>); an empty key matches everywhere, but not twice at one position
  (\<^verbatim>\<open>prevMatchEmpty\<close>).
\<close>

fun lookup :: "(string \<times> string) list \<Rightarrow> string \<Rightarrow> bool \<Rightarrow> (string \<times> string) option" where
  "lookup [] s ignoreRoot = None"
| "lookup ((old, new) # oldnew) s ignoreRoot =
     (if take (length old) s = old \<and> \<not> (ignoreRoot \<and> old = []) then Some (old, new)
      else lookup oldnew s ignoreRoot)"

lemma lookup_Some:
  "lookup oldnew s ignoreRoot = Some (old, new) \<Longrightarrow>
     take (length old) s = old \<and> \<not> (ignoreRoot \<and> old = [])"
  by (induction oldnew) (auto split: if_splits)

function Replace :: "(string \<times> string) list \<Rightarrow> bool \<Rightarrow> string \<Rightarrow> string" where
  "Replace oldnew prevMatchEmpty s =
     (case lookup oldnew s prevMatchEmpty of
        Some (old, new) \<Rightarrow> new @ Replace oldnew (old = []) (drop (length old) s)
      | None \<Rightarrow> (case s of [] \<Rightarrow> [] | c # cs \<Rightarrow> c # Replace oldnew False cs))"
  by pat_completeness auto
termination
proof (relation "measure (\<lambda>(oldnew, prevMatchEmpty, s). 2 * length s + (if prevMatchEmpty then 0 else 1))")
  show "wf (measure (\<lambda>(oldnew, prevMatchEmpty, s). 2 * length s + (if prevMatchEmpty then 0 else 1)))"
    by simp
next
  fix oldnew :: "(string \<times> string) list" and prevMatchEmpty :: bool and s :: string
    and x2 :: "string \<times> string" and old new :: string
  assume l: "lookup oldnew s prevMatchEmpty = Some x2" and x: "(old, new) = x2"
  from l x have p: "take (length old) s = old" and e: "\<not> (prevMatchEmpty \<and> old = [])"
    using lookup_Some [of oldnew s prevMatchEmpty old new] by auto
  show "((oldnew, old = [], drop (length old) s), oldnew, prevMatchEmpty, s)
          \<in> measure (\<lambda>(oldnew, prevMatchEmpty, s). 2 * length s + (if prevMatchEmpty then 0 else 1))"
  proof (cases "old = []")
    case True
    with e show ?thesis by simp
  next
    case False
    have "length (take (length old) s) = length old"
      using p by simp
    then have "length old \<le> length s"
      by simp
    with False have "length s - length old < length s"
      by (cases old) auto
    then show ?thesis by auto
  qed
next
  fix oldnew :: "(string \<times> string) list" and prevMatchEmpty :: bool and s :: string
    and c :: char and cs :: string
  assume "s = c # cs"
  then show "((oldnew, False, cs), oldnew, prevMatchEmpty, s)
          \<in> measure (\<lambda>(oldnew, prevMatchEmpty, s). 2 * length s + (if prevMatchEmpty then 0 else 1))"
    by auto
qed

subsection \<open>Base64\<close>

text \<open>
  \<^verbatim>\<open>base64.URLEncoding\<close> of \<^verbatim>\<open>encoding/base64\<close>: the URL-safe alphabet of
  RFC 4648, with \<^verbatim>\<open>=\<close> padding, not strict. A byte is a \<^typ>\<open>char\<close>, so
  \<^verbatim>\<open>[]byte(s)\<close> and \<^verbatim>\<open>string(b)\<close> are the identity. Go computes on
  \<^verbatim>\<open>uint\<close>; no value here reaches \<open>2 ^ 24\<close>, so \<^typ>\<open>nat\<close> with the
  same shifts and masks computes the same.
\<close>

definition encodeURL :: string where
  "encodeURL = ''ABCDEFGHIJKLMNOPQRSTUVWXYZabcdefghijklmnopqrstuvwxyz0123456789-_''"

definition padChar :: char where
  "padChar = CHR ''=''"

definition encode :: "nat \<Rightarrow> char" where
  "encode i = encodeURL ! i"

fun index_of :: "'a \<Rightarrow> 'a list \<Rightarrow> nat option" where
  "index_of c [] = None"
| "index_of c (x # xs) = (if c = x then Some 0 else map_option Suc (index_of c xs))"

text \<open>\<^verbatim>\<open>enc.decodeMap[in]\<close>, with \<open>None\<close> for Go's \<^verbatim>\<open>0xff\<close>.\<close>

definition decodeMap :: "char \<Rightarrow> nat option" where
  "decodeMap c = index_of c encodeURL"

text \<open>
  \<^verbatim>\<open>EncodeToString\<close>: three bytes become four characters; one or two bytes left
  over become two or three characters and padding.
\<close>

fun EncodeToString :: "string \<Rightarrow> string" where
  "EncodeToString (a # b # c # src) =
     (let val = push_bit 16 (of_char a) OR push_bit 8 (of_char b) OR of_char c
      in [encode (drop_bit 18 val AND 63), encode (drop_bit 12 val AND 63),
          encode (drop_bit 6 val AND 63), encode (val AND 63)]) @ EncodeToString src"
| "EncodeToString [a, b] =
     (let val = push_bit 16 (of_char a) OR push_bit 8 (of_char b)
      in [encode (drop_bit 18 val AND 63), encode (drop_bit 12 val AND 63),
          encode (drop_bit 6 val AND 63), padChar])"
| "EncodeToString [a] =
     (let val = push_bit 16 (of_char a)
      in [encode (drop_bit 18 val AND 63), encode (drop_bit 12 val AND 63), padChar, padChar])"
| "EncodeToString [] = []"

text \<open>
  \<^verbatim>\<open>DecodeString\<close> runs \<^verbatim>\<open>decodeQuantum\<close> until the input ends. Here
  \<open>si\<close> is the index of the next input byte and \<open>dbuf\<close> the six-bit values of the
  quantum read so far (\<open>j\<close> is its length). Line feeds and carriage returns are
  skipped wherever they stand. The bytes decoded before an error are dropped: the handlers
  never read them.
\<close>

fun skip_newlines :: "nat \<Rightarrow> string \<Rightarrow> nat \<times> string" where
  "skip_newlines si [] = (si, [])"
| "skip_newlines si (c # cs) =
     (if c = CHR 0x0A \<or> c = CHR 0x0D then skip_newlines (Suc si) cs else (si, c # cs))"

text \<open>
  The four six-bit values of a quantum as three bytes (\<open>dbuf\<close> has four entries
  wherever this is used).
\<close>

definition quantum :: "nat list \<Rightarrow> string" where
  "quantum dbuf =
     (let val = push_bit 18 (dbuf ! 0) OR push_bit 12 (dbuf ! 1) OR push_bit 6 (dbuf ! 2) OR dbuf ! 3
      in [char_of (drop_bit 16 val), char_of (drop_bit 8 val), char_of val])"

text \<open>
  After the padding only newlines may follow (anything else is trailing garbage); then the
  quantum of \<open>dlen = length dbuf\<close> values gives \<open>dlen - 1\<close> bytes.
\<close>

definition finish :: "nat \<Rightarrow> nat list \<Rightarrow> string \<Rightarrow> go_error + string" where
  "finish si dbuf cs =
     (case skip_newlines si cs of
        (si', []) \<Rightarrow> Inr (take (length dbuf - 1) (quantum (dbuf @ replicate (4 - length dbuf) 0)))
      | (si', c # cs') \<Rightarrow> Inl (CorruptInputError si'))"

text \<open>
  A padding character has been read (\<open>si\<close> is past it): it is misplaced in the first
  two positions, must be followed by a second one in the third, and ends the input.
\<close>

definition padding :: "nat \<Rightarrow> nat list \<Rightarrow> string \<Rightarrow> go_error + string" where
  "padding si dbuf cs =
     (if length dbuf < 2 then Inl (CorruptInputError (si - 1))
      else if length dbuf = 2 then
        (case skip_newlines si cs of
           (si', []) \<Rightarrow> Inl (CorruptInputError si')
         | (si', c # cs') \<Rightarrow>
             if c \<noteq> padChar then Inl (CorruptInputError (si' - 1))
             else finish (Suc si') dbuf cs')
      else finish si dbuf cs)"

fun decodeQuantum :: "nat \<Rightarrow> nat list \<Rightarrow> string \<Rightarrow> go_error + string" where
  "decodeQuantum si dbuf [] =
     (if dbuf = [] then Inr [] else Inl (CorruptInputError (si - length dbuf)))"
| "decodeQuantum si dbuf (c # cs) =
     (case decodeMap c of
        Some out \<Rightarrow>
          (if length dbuf = 3 then
             (case decodeQuantum (Suc si) [] cs of
                Inl err \<Rightarrow> Inl err
              | Inr bs \<Rightarrow> Inr (quantum (dbuf @ [out]) @ bs))
           else decodeQuantum (Suc si) (dbuf @ [out]) cs)
      | None \<Rightarrow>
          if c = CHR 0x0A \<or> c = CHR 0x0D then decodeQuantum (Suc si) dbuf cs
          else if c \<noteq> padChar then Inl (CorruptInputError si)
          else padding (Suc si) dbuf cs)"

definition DecodeString :: "string \<Rightarrow> go_error + string" where
  "DecodeString s = decodeQuantum 0 [] s"


subsection \<open>The JSON stream decoder\<close>

text \<open>
  \<^verbatim>\<open>json.NewDecoder(r).Decode(v)\<close> of \<^verbatim>\<open>encoding/json\<close> first finds where
  the next JSON value of the input ends (\<^verbatim>\<open>readValue\<close>, which feeds the bytes to the
  scanner of \<^verbatim>\<open>scanner.go\<close>) and then decodes those bytes into \<^verbatim>\<open>v\<close>. The
  scanner is a state machine: \<open>step\<close> names the state function to call on the next
  byte, \<open>parseState\<close> is the stack of open objects and arrays (the innermost first),
  \<open>scan_err\<close> the text of the syntax error, once there is one. Each state function
  returns an opcode and the scanner as it leaves it.
\<close>

datatype scan_op =
    scanContinue | scanBeginLiteral | scanBeginObject | scanObjectKey | scanObjectValue
  | scanEndObject | scanBeginArray | scanArrayValue | scanEndArray | scanSkipSpace
  | scanEnd | scanError

datatype parse_state = parseObjectKey | parseObjectValue | parseArrayValue

datatype step_fn =
    StepBeginValueOrEmpty | StepBeginValue | StepBeginStringOrEmpty | StepBeginString
  | StepEndValue | StepEndTop
  | StepInString | StepInStringEsc | StepInStringEscU | StepInStringEscU1
  | StepInStringEscU12 | StepInStringEscU123
  | StepNeg | Step1 | Step0 | StepDot | StepDot0 | StepE | StepESign | StepE0
  | StepT | StepTr | StepTru | StepF | StepFa | StepFal | StepFals
  | StepN | StepNu | StepNul
  | StepError

record scanner =
  step :: step_fn
  endTop :: bool
  parseState :: "parse_state list"
  scan_err :: "string option"

definition reset :: scanner where
  "reset = \<lparr>step = StepBeginValue, endTop = False, parseState = [], scan_err = None\<rparr>"

text \<open>The nesting limit of the scanner (since Go 1.15).\<close>

definition maxNestingDepth :: nat where
  "maxNestingDepth = 10000"

definition isSpace :: "char \<Rightarrow> bool" where
  "isSpace c \<longleftrightarrow> c = CHR '' '' \<or> c = CHR 0x09 \<or> c = CHR 0x0D \<or> c = CHR 0x0A"

definition isDigit :: "char \<Rightarrow> bool" where
  "isDigit c \<longleftrightarrow> of_char (CHR ''0'') \<le> (of_char c :: nat) \<and> (of_char c :: nat) \<le> of_char (CHR ''9'')"

definition isHex :: "char \<Rightarrow> bool" where
  "isHex c \<longleftrightarrow>
     isDigit c \<or>
     of_char (CHR ''a'') \<le> (of_char c :: nat) \<and> (of_char c :: nat) \<le> of_char (CHR ''f'') \<or>
     of_char (CHR ''A'') \<le> (of_char c :: nat) \<and> (of_char c :: nat) \<le> of_char (CHR ''F'')"

text \<open>
  \<^verbatim>\<open>quoteChar(c)\<close>, which prints the offending byte in a syntax error: the byte as a
  rune, quoted by \<^verbatim>\<open>strconv.Quote\<close> and put between single quotes. A printable
  rune stands for itself (in UTF-8 from 0xA1 on), the others are escaped
  (\<^verbatim>\<open>\x7f\<close> for 0x7F is the form since Go 1.19).
\<close>

definition lowerhex :: "nat \<Rightarrow> char" where
  "lowerhex i = ''0123456789abcdef'' ! i"

definition IsPrint :: "nat \<Rightarrow> bool" where
  "IsPrint r \<longleftrightarrow> 0x20 \<le> r \<and> r \<le> 0x7E \<or> 0xA1 \<le> r \<and> r \<le> 0xFF \<and> r \<noteq> 0xAD"

definition EncodeRune :: "nat \<Rightarrow> string" where
  "EncodeRune r =
     (if r < 0x80 then [char_of r]
      else [char_of (0xC0 OR drop_bit 6 r), char_of (0x80 OR (r AND 0x3F))])"

definition appendEscapedRune :: "nat \<Rightarrow> string" where
  "appendEscapedRune r =
     (if r = 0x5C then [CHR 0x5C, CHR 0x5C]
      else if IsPrint r then EncodeRune r
      else if r = 0x07 then [CHR 0x5C, CHR ''a'']
      else if r = 0x08 then [CHR 0x5C, CHR ''b'']
      else if r = 0x0C then [CHR 0x5C, CHR ''f'']
      else if r = 0x0A then [CHR 0x5C, CHR ''n'']
      else if r = 0x0D then [CHR 0x5C, CHR ''r'']
      else if r = 0x09 then [CHR 0x5C, CHR ''t'']
      else if r = 0x0B then [CHR 0x5C, CHR ''v'']
      else if r < 0x20 \<or> r = 0x7F then
        [CHR 0x5C, CHR ''x'', lowerhex (drop_bit 4 r), lowerhex (r AND 0xF)]
      else
        [CHR 0x5C, CHR ''u'', CHR ''0'', CHR ''0'', lowerhex (drop_bit 4 r), lowerhex (r AND 0xF)])"

definition quoteChar :: "char \<Rightarrow> string" where
  "quoteChar c =
     (if c = CHR 0x27 then [CHR 0x27, CHR 0x5C, CHR 0x27, CHR 0x27]
      else if c = CHR 0x22 then [CHR 0x27, CHR 0x22, CHR 0x27]
      else [CHR 0x27] @ appendEscapedRune (of_char c) @ [CHR 0x27])"

text \<open>\<^verbatim>\<open>s.error(c, context)\<close>: the scanner stops with a syntax error.\<close>

definition scan_error :: "scanner \<Rightarrow> char \<Rightarrow> string \<Rightarrow> scan_op \<times> scanner" where
  "scan_error s c context =
     (scanError,
      s\<lparr>step := StepError,
        scan_err := Some (''invalid character '' @ quoteChar c @ '' '' @ context)\<rparr>)"

definition pushParseState :: "scanner \<Rightarrow> char \<Rightarrow> parse_state \<Rightarrow> scan_op \<Rightarrow> scan_op \<times> scanner" where
  "pushParseState s c newParseState successState =
     (let s' = s\<lparr>parseState := newParseState # parseState s\<rparr>
      in if length (parseState s') \<le> maxNestingDepth then (successState, s')
         else scan_error s' c ''exceeded max depth'')"

definition popParseState :: "scanner \<Rightarrow> scanner" where
  "popParseState s =
     (let s' = s\<lparr>parseState := tl (parseState s)\<rparr>
      in if parseState s' = [] then s'\<lparr>step := StepEndTop, endTop := True\<rparr>
         else s'\<lparr>step := StepEndValue\<rparr>)"

text \<open>
  The state functions, one for each of \<^verbatim>\<open>scanner.go\<close>. A top-level value has ended
  when \<^verbatim>\<open>stateEndTop\<close> is called: a byte other than a space then is an error, but
  one that is reported on the next call only.
\<close>

definition stateEndTop :: "scanner \<Rightarrow> char \<Rightarrow> scan_op \<times> scanner" where
  "stateEndTop s c =
     (if \<not> isSpace c then (scanEnd, snd (scan_error s c ''after top-level value''))
      else (scanEnd, s))"

definition stateEndValue :: "scanner \<Rightarrow> char \<Rightarrow> scan_op \<times> scanner" where
  "stateEndValue s c =
     (case parseState s of
        [] \<Rightarrow> stateEndTop (s\<lparr>step := StepEndTop, endTop := True\<rparr>) c
      | ps # rest \<Rightarrow>
          if isSpace c then (scanSkipSpace, s\<lparr>step := StepEndValue\<rparr>)
          else (case ps of
             parseObjectKey \<Rightarrow>
               if c = CHR '':'' then
                 (scanObjectKey, s\<lparr>parseState := parseObjectValue # rest, step := StepBeginValue\<rparr>)
               else scan_error s c ''after object key''
           | parseObjectValue \<Rightarrow>
               if c = CHR '','' then
                 (scanObjectValue, s\<lparr>parseState := parseObjectKey # rest, step := StepBeginString\<rparr>)
               else if c = CHR ''}'' then (scanEndObject, popParseState s)
               else scan_error s c ''after object key:value pair''
           | parseArrayValue \<Rightarrow>
               if c = CHR '','' then (scanArrayValue, s\<lparr>step := StepBeginValue\<rparr>)
               else if c = CHR '']'' then (scanEndArray, popParseState s)
               else scan_error s c ''after array element''))"

definition stateBeginValue :: "scanner \<Rightarrow> char \<Rightarrow> scan_op \<times> scanner" where
  "stateBeginValue s c =
     (if isSpace c then (scanSkipSpace, s)
      else if c = CHR ''{'' then
        pushParseState (s\<lparr>step := StepBeginStringOrEmpty\<rparr>) c parseObjectKey scanBeginObject
      else if c = CHR ''['' then
        pushParseState (s\<lparr>step := StepBeginValueOrEmpty\<rparr>) c parseArrayValue scanBeginArray
      else if c = CHR 0x22 then (scanBeginLiteral, s\<lparr>step := StepInString\<rparr>)
      else if c = CHR ''-'' then (scanBeginLiteral, s\<lparr>step := StepNeg\<rparr>)
      else if c = CHR ''0'' then (scanBeginLiteral, s\<lparr>step := Step0\<rparr>)
      else if c = CHR ''t'' then (scanBeginLiteral, s\<lparr>step := StepT\<rparr>)
      else if c = CHR ''f'' then (scanBeginLiteral, s\<lparr>step := StepF\<rparr>)
      else if c = CHR ''n'' then (scanBeginLiteral, s\<lparr>step := StepN\<rparr>)
      else if isDigit c then (scanBeginLiteral, s\<lparr>step := Step1\<rparr>)
      else scan_error s c ''looking for beginning of value'')"

definition stateBeginString :: "scanner \<Rightarrow> char \<Rightarrow> scan_op \<times> scanner" where
  "stateBeginString s c =
     (if isSpace c then (scanSkipSpace, s)
      else if c = CHR 0x22 then (scanBeginLiteral, s\<lparr>step := StepInString\<rparr>)
      else scan_error s c ''looking for beginning of object key string'')"

definition stateBeginStringOrEmpty :: "scanner \<Rightarrow> char \<Rightarrow> scan_op \<times> scanner" where
  "stateBeginStringOrEmpty s c =
     (if isSpace c then (scanSkipSpace, s)
      else if c = CHR ''}'' then
        stateEndValue (s\<lparr>parseState := parseObjectValue # tl (parseState s)\<rparr>) c
      else stateBeginString s c)"

definition stateBeginValueOrEmpty :: "scanner \<Rightarrow> char \<Rightarrow> scan_op \<times> scanner" where
  "stateBeginValueOrEmpty s c =
     (if isSpace c then (scanSkipSpace, s)
      else if c = CHR '']'' then stateEndValue s c
      else stateBeginValue s c)"

definition stateInString :: "scanner \<Rightarrow> char \<Rightarrow> scan_op \<times> scanner" where
  "stateInString s c =
     (if c = CHR 0x22 then (scanContinue, s\<lparr>step := StepEndValue\<rparr>)
      else if c = CHR 0x5C then (scanContinue, s\<lparr>step := StepInStringEsc\<rparr>)
      else if (of_char c :: nat) < 0x20 then scan_error s c ''in string literal''
      else (scanContinue, s))"

definition stateInStringEsc :: "scanner \<Rightarrow> char \<Rightarrow> scan_op \<times> scanner" where
  "stateInStringEsc s c =
     (if c \<in> set [CHR ''b'', CHR ''f'', CHR ''n'', CHR ''r'', CHR ''t'', CHR 0x5C, CHR ''/'', CHR 0x22]
      then (scanContinue, s\<lparr>step := StepInString\<rparr>)
      else if c = CHR ''u'' then (scanContinue, s\<lparr>step := StepInStringEscU\<rparr>)
      else scan_error s c ''in string escape code'')"

text \<open>
  The four states of a \<^verbatim>\<open>\u\<close> escape differ in the state that follows, and the
  states of the literals \<^verbatim>\<open>true\<close>, \<^verbatim>\<open>false\<close> and \<^verbatim>\<open>null\<close> in
  the letter they expect: each family is one definition here.
\<close>

definition stateInStringEscU :: "step_fn \<Rightarrow> scanner \<Rightarrow> char \<Rightarrow> scan_op \<times> scanner" where
  "stateInStringEscU next s c =
     (if isHex c then (scanContinue, s\<lparr>step := next\<rparr>)
      else scan_error s c ([CHR ''i'', CHR ''n'', CHR '' '', CHR 0x5C] @ ''u hexadecimal character escape''))"

definition stateNeg :: "scanner \<Rightarrow> char \<Rightarrow> scan_op \<times> scanner" where
  "stateNeg s c =
     (if c = CHR ''0'' then (scanContinue, s\<lparr>step := Step0\<rparr>)
      else if isDigit c then (scanContinue, s\<lparr>step := Step1\<rparr>)
      else scan_error s c ''in numeric literal'')"

definition state0 :: "scanner \<Rightarrow> char \<Rightarrow> scan_op \<times> scanner" where
  "state0 s c =
     (if c = CHR ''.'' then (scanContinue, s\<lparr>step := StepDot\<rparr>)
      else if c = CHR ''e'' \<or> c = CHR ''E'' then (scanContinue, s\<lparr>step := StepE\<rparr>)
      else stateEndValue s c)"

definition state1 :: "scanner \<Rightarrow> char \<Rightarrow> scan_op \<times> scanner" where
  "state1 s c =
     (if isDigit c then (scanContinue, s\<lparr>step := Step1\<rparr>)
      else state0 s c)"

definition stateDot :: "scanner \<Rightarrow> char \<Rightarrow> scan_op \<times> scanner" where
  "stateDot s c =
     (if isDigit c then (scanContinue, s\<lparr>step := StepDot0\<rparr>)
      else scan_error s c ''after decimal point in numeric literal'')"

definition stateDot0 :: "scanner \<Rightarrow> char \<Rightarrow> scan_op \<times> scanner" where
  "stateDot0 s c =
     (if isDigit c then (scanContinue, s)
      else if c = CHR ''e'' \<or> c = CHR ''E'' then (scanContinue, s\<lparr>step := StepE\<rparr>)
      else stateEndValue s c)"

definition stateESign :: "scanner \<Rightarrow> char \<Rightarrow> scan_op \<times> scanner" where
  "stateESign s c =
     (if isDigit c then (scanContinue, s\<lparr>step := StepE0\<rparr>)
      else scan_error s c ''in exponent of numeric literal'')"

definition stateE :: "scanner \<Rightarrow> char \<Rightarrow> scan_op \<times> scanner" where
  "stateE s c =
     (if c = CHR ''+'' \<or> c = CHR ''-'' then (scanContinue, s\<lparr>step := StepESign\<rparr>)
      else stateESign s c)"

definition stateE0 :: "scanner \<Rightarrow> char \<Rightarrow> scan_op \<times> scanner" where
  "stateE0 s c =
     (if isDigit c then (scanContinue, s)
      else stateEndValue s c)"

definition stateLiteral :: "string \<Rightarrow> char \<Rightarrow> step_fn \<Rightarrow> scanner \<Rightarrow> char \<Rightarrow> scan_op \<times> scanner" where
  "stateLiteral literal expected next s c =
     (if c = expected then (scanContinue, s\<lparr>step := next\<rparr>)
      else scan_error s c
        (''in literal '' @ literal @ '' (expecting '' @ [CHR 0x27, expected, CHR 0x27] @ '')''))"

text \<open>\<^verbatim>\<open>s.step(s, c)\<close>: the call of the current state function.\<close>

definition scan_step :: "scanner \<Rightarrow> char \<Rightarrow> scan_op \<times> scanner" where
  "scan_step s c =
     (case step s of
        StepBeginValueOrEmpty \<Rightarrow> stateBeginValueOrEmpty s c
      | StepBeginValue \<Rightarrow> stateBeginValue s c
      | StepBeginStringOrEmpty \<Rightarrow> stateBeginStringOrEmpty s c
      | StepBeginString \<Rightarrow> stateBeginString s c
      | StepEndValue \<Rightarrow> stateEndValue s c
      | StepEndTop \<Rightarrow> stateEndTop s c
      | StepInString \<Rightarrow> stateInString s c
      | StepInStringEsc \<Rightarrow> stateInStringEsc s c
      | StepInStringEscU \<Rightarrow> stateInStringEscU StepInStringEscU1 s c
      | StepInStringEscU1 \<Rightarrow> stateInStringEscU StepInStringEscU12 s c
      | StepInStringEscU12 \<Rightarrow> stateInStringEscU StepInStringEscU123 s c
      | StepInStringEscU123 \<Rightarrow> stateInStringEscU StepInString s c
      | StepNeg \<Rightarrow> stateNeg s c
      | Step1 \<Rightarrow> state1 s c
      | Step0 \<Rightarrow> state0 s c
      | StepDot \<Rightarrow> stateDot s c
      | StepDot0 \<Rightarrow> stateDot0 s c
      | StepE \<Rightarrow> stateE s c
      | StepESign \<Rightarrow> stateESign s c
      | StepE0 \<Rightarrow> stateE0 s c
      | StepT \<Rightarrow> stateLiteral ''true'' (CHR ''r'') StepTr s c
      | StepTr \<Rightarrow> stateLiteral ''true'' (CHR ''u'') StepTru s c
      | StepTru \<Rightarrow> stateLiteral ''true'' (CHR ''e'') StepEndValue s c
      | StepF \<Rightarrow> stateLiteral ''false'' (CHR ''a'') StepFa s c
      | StepFa \<Rightarrow> stateLiteral ''false'' (CHR ''l'') StepFal s c
      | StepFal \<Rightarrow> stateLiteral ''false'' (CHR ''s'') StepFals s c
      | StepFals \<Rightarrow> stateLiteral ''false'' (CHR ''e'') StepEndValue s c
      | StepN \<Rightarrow> stateLiteral ''null'' (CHR ''u'') StepNu s c
      | StepNu \<Rightarrow> stateLiteral ''null'' (CHR ''l'') StepNul s c
      | StepNul \<Rightarrow> stateLiteral ''null'' (CHR ''l'') StepEndValue s c
      | StepError \<Rightarrow> (scanError, s))"

text \<open>
  The errors of the decoder's first phase: \<^verbatim>\<open>io.EOF\<close>,
  \<^verbatim>\<open>io.ErrUnexpectedEOF\<close> and a \<^verbatim>\<open>*json.SyntaxError\<close>, whose
  \<^verbatim>\<open>Error()\<close> is its message. None of them wraps an error, so each behaves as a
  value of \<^verbatim>\<open>errors.New\<close> does.
\<close>

definition io_EOF :: go_error where
  "io_EOF = errorString 1 ''EOF''"

definition io_ErrUnexpectedEOF :: go_error where
  "io_ErrUnexpectedEOF = errorString 2 ''unexpected EOF''"

definition SyntaxError :: "string \<Rightarrow> go_error" where
  "SyntaxError msg = errorString 3 msg"

text \<open>
  \<^verbatim>\<open>dec.readValue()\<close> on a fresh decoder whose reader gives the bytes \<open>buf\<close> and
  then \<^verbatim>\<open>io.EOF\<close>: the length of the prefix that holds the first JSON value, or the
  error. A value that is an object or an array ends with its closing bracket; a string, a
  number or a literal ends before the first byte that cannot continue it. The bytes after
  the value are not fed to the scanner. When the input ends first, a space is fed in its
  place; if that does not end a value either, the error is \<^verbatim>\<open>io.EOF\<close> for an
  input of spaces only and \<^verbatim>\<open>io.ErrUnexpectedEOF\<close> otherwise.
\<close>

fun readValue_scan :: "scanner \<Rightarrow> nat \<Rightarrow> string \<Rightarrow> string \<Rightarrow> go_error + nat" where
  "readValue_scan s scanp buf [] =
     (if fst (scan_step s (CHR '' '')) = scanEnd then Inr scanp
      else if list_ex (\<lambda>c. \<not> isSpace c) buf then Inl io_ErrUnexpectedEOF
      else Inl io_EOF)"
| "readValue_scan s scanp buf (c # cs) =
     (case scan_step s c of
        (scanEnd, s') \<Rightarrow> Inr scanp
      | (scanEndObject, s') \<Rightarrow>
          (case stateEndValue s' (CHR '' '') of
             (scanEnd, s'') \<Rightarrow> Inr (Suc scanp)
           | (op, s'') \<Rightarrow> readValue_scan s'' (Suc scanp) buf cs)
      | (scanEndArray, s') \<Rightarrow>
          (case stateEndValue s' (CHR '' '') of
             (scanEnd, s'') \<Rightarrow> Inr (Suc scanp)
           | (op, s'') \<Rightarrow> readValue_scan s'' (Suc scanp) buf cs)
      | (scanError, s') \<Rightarrow>
          Inl (SyntaxError (case scan_err s' of None \<Rightarrow> [] | Some msg \<Rightarrow> msg))
      | (op, s') \<Rightarrow> readValue_scan s' (Suc scanp) buf cs)"

definition readValue :: "string \<Rightarrow> go_error + nat" where
  "readValue buf = readValue_scan reset 0 buf buf"

text \<open>
  \<^verbatim>\<open>json.Valid(data)\<close>, the package's own test that all of \<open>data\<close> is one
  JSON value with nothing but spaces around it.
\<close>

definition scan_eof :: "scanner \<Rightarrow> scan_op" where
  "scan_eof s =
     (if scan_err s \<noteq> None then scanError
      else if endTop s then scanEnd
      else if endTop (snd (scan_step s (CHR '' ''))) then scanEnd
      else scanError)"

fun checkValid :: "scanner \<Rightarrow> string \<Rightarrow> bool" where
  "checkValid s [] = (scan_eof s \<noteq> scanError)"
| "checkValid s (c # cs) =
     (case scan_step s c of
        (scanError, s') \<Rightarrow> False
      | (op, s') \<Rightarrow> checkValid s' cs)"

definition Valid :: "string \<Rightarrow> bool" where
  "Valid data = checkValid reset data"

text \<open>
  Two predicates for reasoning about a scan: the scanner is in the middle of a value (no
  error, no top-level value ended), and what one step from such a scanner gives.
\<close>

definition scanning :: "scanner \<Rightarrow> bool" where
  "scanning s \<longleftrightarrow> scan_err s = None \<and> \<not> endTop s \<and> step s \<noteq> StepEndTop \<and> step s \<noteq> StepError"

definition stepped :: "scan_op \<Rightarrow> scanner \<Rightarrow> bool" where
  "stepped op s' \<longleftrightarrow>
     op = scanError \<and> \<not> endTop s' \<or> op = scanEnd \<or>
     (op = scanEndObject \<or> op = scanEndArray) \<and> parseState s' = [] \<and> endTop s' \<or>
     (op = scanEndObject \<or> op = scanEndArray) \<and> parseState s' \<noteq> [] \<and> step s' = StepEndValue \<and>
       scanning s' \<or>
     op \<noteq> scanEndObject \<and> op \<noteq> scanEndArray \<and> scanning s'"

section \<open>Data model\<close>

text \<open>
  Modelled from the spec: the request structs (\<^verbatim>\<open>createKeystoreReq\<close>,
  \<^verbatim>\<open>createKeyReq\<close>, \<^verbatim>\<open>signReq\<close>, \<^verbatim>\<open>verifyReq\<close>,
  \<^verbatim>\<open>encryptReq\<close>, \<^verbatim>\<open>decryptReq\<close>), which are declared in another
  file of the package. Their members are strings; the JSON names are those of the wire
  contract and of the tests' request formats (\<^verbatim>\<open>controller\<close>,
  \<^verbatim>\<open>keyType\<close>, \<^verbatim>\<open>message\<close>, \<^verbatim>\<open>signature\<close>,
  \<^verbatim>\<open>aad\<close>, \<^verbatim>\<open>cipherText\<close>, \<^verbatim>\<open>nonce\<close>), and
  \<^verbatim>\<open>passphrase\<close> for the member the handlers read as
  \<^verbatim>\<open>request.Passphrase\<close>.

  A request, as a handler reads it: \<^verbatim>\<open>req.Host\<close>, the path parameters
  \<^verbatim>\<open>mux.Vars(req)\<close>, and the body. The body is what
  \<^verbatim>\<open>json.NewDecoder(req.Body).Decode\<close> makes of it for the endpoint's request
  struct: the decoder's error, or the string members it assigned, by their JSON names.
  How the decoder gets there from the bytes of a body is \<open>Decode\<close>, below.
\<close>

record Request =
  Host :: string
  Vars :: "string \<rightharpoonup> string"
  Body :: "go_error + (string \<rightharpoonup> string)"

text \<open>
  A Go map of strings and a freshly declared struct give the empty string where nothing
  was stored.
\<close>

definition get :: "(string \<rightharpoonup> string) \<Rightarrow> string \<Rightarrow> string" where
  "get m k = (case m k of None \<Rightarrow> [] | Some v \<Rightarrow> v)"

text \<open>
  The body as it comes over the wire: its bytes, and what decoding the first JSON value of
  those bytes into the endpoint's request struct gives (\<^verbatim>\<open>d.unmarshal\<close>, the second
  phase of \<^verbatim>\<open>Decode\<close>, which is not modelled: a type error, or the members
  assigned). \<open>Decode\<close> is the call of \<^verbatim>\<open>parseRequest\<close>; \<open>receive\<close> is the
  request a handler gets for a body on the wire.
\<close>

record wire_body =
  bytes :: string
  unmarshalled :: "go_error + (string \<rightharpoonup> string)"

definition Decode :: "wire_body \<Rightarrow> go_error + (string \<rightharpoonup> string)" where
  "Decode b = (case readValue (bytes b) of Inl err \<Rightarrow> Inl err | Inr n \<Rightarrow> unmarshalled b)"

definition receive :: "string \<Rightarrow> (string \<rightharpoonup> string) \<Rightarrow> wire_body \<Rightarrow> Request" where
  "receive host vars b = \<lparr>Host = host, Vars = vars, Body = Decode b\<rparr>"

record KMSCreatorContext =
  KeystoreID :: string
  Passphrase :: string

text \<open>The collaborators' values are opaque to the handlers: handles.\<close>

type_synonym Repository = nat
type_synonym KeyManager = nat
type_synonym Crypto = nat

record kmsProvider =
  keystore :: Repository
  kms :: KeyManager
  crypto :: Crypto

text \<open>
  What a handler depends on. \<^verbatim>\<open>Provider\<close> gives the key-manager constructor and
  the crypto capability; \<^verbatim>\<open>keystore.NewRepository\<close> on its storage provider
  gives the repository or an error. The services of \<^verbatim>\<open>pkg/keystore\<close> and
  \<^verbatim>\<open>pkg/kms\<close> are other packages of the repository and are parameters here:
  each is called at most once in a request, so a function of its arguments describes it.
  \<open>rw_Write\<close> is what the response writer's \<^verbatim>\<open>Write\<close> returns (an error
  when the transport is closed, as the tests' \<^verbatim>\<open>failingResponseWriter\<close>).
\<close>

record Provider =
  NewRepository :: "go_error + Repository"
  KMSCreator :: "KMSCreatorContext \<Rightarrow> go_error + KeyManager"
  Crypto :: Crypto
  keystore_Create :: "Repository \<Rightarrow> string \<Rightarrow> go_error + string"
  CreateKey :: "kmsProvider \<Rightarrow> string \<Rightarrow> string \<Rightarrow> go_error + string"
  Sign :: "kmsProvider \<Rightarrow> string \<Rightarrow> string \<Rightarrow> string \<Rightarrow> go_error + string"
  Verify :: "kmsProvider \<Rightarrow> string \<Rightarrow> string \<Rightarrow> string \<Rightarrow> string \<Rightarrow> go_error option"
  Encrypt :: "kmsProvider \<Rightarrow> string \<Rightarrow> string \<Rightarrow> string \<Rightarrow> string \<Rightarrow> go_error + string \<times> string"
  Decrypt :: "kmsProvider \<Rightarrow> string \<Rightarrow> string \<Rightarrow> string \<Rightarrow> string \<Rightarrow> string \<Rightarrow> go_error + string"
  rw_Write :: "go_error option"

text \<open>The values the handlers encode as JSON: the error body and the three results.\<close>

datatype payload =
    errorResponse string
  | signResp string
  | encryptResp string string
  | decryptResp string

text \<open>The calls a handler makes, in order, with their arguments (a service call with the
  provider its service was made of).\<close>

datatype call =
    Call_NewRepository
  | Call_KMSCreator KMSCreatorContext
  | Call_keystore_Create Repository string
  | Call_CreateKey kmsProvider string string
  | Call_Sign kmsProvider string string string
  | Call_Verify kmsProvider string string string string
  | Call_Encrypt kmsProvider string string string string
  | Call_Decrypt kmsProvider string string string string string
  | Call_WriteHeader nat
  | Call_Write payload

text \<open>
  The state a handler changes: the response (its header map, the status sent, \<open>None\<close>
  until one is, and the values that reached the client), the lines of the package's
  logger, and the calls made.
\<close>

record state =
  rr_Header :: "string \<rightharpoonup> string"
  rr_Code :: "nat option"
  rr_Body :: "payload list"
  logged :: "string list"
  calls :: "call list"

definition NewRecorder :: state where
  "NewRecorder = \<lparr>rr_Header = Map.empty, rr_Code = None, rr_Body = [], logged = [], calls = []\<rparr>"

definition called :: "call \<Rightarrow> state \<Rightarrow> state" where
  "called c s = s\<lparr>calls := calls s @ [c]\<rparr>"

section \<open>Writing the response\<close>

text \<open>\<^verbatim>\<open>rw.Header().Set(key, value)\<close>.\<close>

definition Header_Set :: "string \<Rightarrow> string \<Rightarrow> state \<Rightarrow> state" where
  "Header_Set key v s = s\<lparr>rr_Header := (rr_Header s)(key \<mapsto> v)\<rparr>"

text \<open>\<^verbatim>\<open>rw.WriteHeader(status)\<close>: the first status stands.\<close>

definition WriteHeader :: "nat \<Rightarrow> state \<Rightarrow> state" where
  "WriteHeader st s =
     called (Call_WriteHeader st)
       (case rr_Code s of None \<Rightarrow> s\<lparr>rr_Code := Some st\<rparr> | Some c \<Rightarrow> s)"

text \<open>
  \<^verbatim>\<open>json.NewEncoder(rw).Encode(v)\<close>: one \<^verbatim>\<open>Write\<close> of the encoded value.
  The values are structs of strings, so encoding itself cannot fail; a \<^verbatim>\<open>Write\<close>
  that succeeds before any status was sent sends 200.
\<close>

definition Encode :: "Provider \<Rightarrow> payload \<Rightarrow> state \<Rightarrow> go_error option \<times> state" where
  "Encode p v s =
     (let s1 = called (Call_Write v) s
      in case rw_Write p of
           Some err \<Rightarrow> (Some err, s1)
         | None \<Rightarrow>
             (None, s1\<lparr>rr_Code := (case rr_Code s1 of None \<Rightarrow> Some StatusOK | Some c \<Rightarrow> Some c),
                        rr_Body := rr_Body s1 @ [v]\<rparr>))"

definition writeErrorResponse :: "Provider \<Rightarrow> nat \<Rightarrow> string \<Rightarrow> state \<Rightarrow> state" where
  "writeErrorResponse p st msg s =
     (case Encode p (errorResponse msg) (WriteHeader st s) of
        (Some err, s') \<Rightarrow> s'\<lparr>logged := logged s' @ [''Unable to send an error message, '' @ Error err]\<rparr>
      | (None, s') \<Rightarrow> s')"

definition writeResponse :: "Provider \<Rightarrow> payload \<Rightarrow> state \<Rightarrow> state" where
  "writeResponse p v s =
     (case Encode p v s of
        (Some err, s') \<Rightarrow> s'\<lparr>logged := logged s' @ [''Unable to send a response, '' @ Error err]\<rparr>
      | (None, s') \<Rightarrow> s')"

definition keystoreLocation :: "string \<Rightarrow> string \<Rightarrow> string" where
  "keystoreLocation hostURL keystoreID =
     hostURL @ ReplaceAll keystoreEndpoint ''{keystoreID}'' keystoreID"

definition keyLocation :: "string \<Rightarrow> string \<Rightarrow> string \<Rightarrow> string" where
  "keyLocation hostURL keystoreID keyID =
     hostURL @ Replace [(''{keystoreID}'', keystoreID), (''{keyID}'', keyID)] False keyEndpoint"

section \<open>The handlers\<close>

definition parseRequest :: "Provider \<Rightarrow> Request \<Rightarrow> state \<Rightarrow> (string \<rightharpoonup> string) option \<times> state" where
  "parseRequest p req s =
     (case Body req of
        Inl err \<Rightarrow> (None, writeErrorResponse p StatusBadRequest (receivedBadRequest (Error err)) s)
      | Inr request \<Rightarrow> (Some request, s))"

definition prepareKMSProvider :: "Provider \<Rightarrow> string \<Rightarrow> string \<Rightarrow> state \<Rightarrow> kmsProvider option \<times> state" where
  "prepareKMSProvider p keystoreID passphrase s =
     (let s1 = called Call_NewRepository s
      in case NewRepository p of
           Inl err \<Rightarrow>
             (None, writeErrorResponse p StatusInternalServerError (createKMSProviderFailure (Error err)) s1)
         | Inr keystoreRepo \<Rightarrow>
             (let ctx = \<lparr>KeystoreID = keystoreID, Passphrase = passphrase\<rparr>;
                  s2 = called (Call_KMSCreator ctx) s1
              in case KMSCreator p ctx of
                   Inl err \<Rightarrow>
                     (None, writeErrorResponse p StatusInternalServerError (createKMSProviderFailure (Error err)) s2)
                 | Inr keyManager \<Rightarrow>
                     (Some \<lparr>keystore = keystoreRepo, kms = keyManager, crypto = Crypto p\<rparr>, s2)))"

definition createKeystoreHandler :: "Provider \<Rightarrow> Request \<Rightarrow> state \<Rightarrow> state" where
  "createKeystoreHandler p req s =
     (case parseRequest p req s of
        (None, s1) \<Rightarrow> s1
      | (Some request, s1) \<Rightarrow>
          (let s2 = called Call_NewRepository s1
           in case NewRepository p of
                Inl err \<Rightarrow>
                  writeErrorResponse p StatusInternalServerError (createKeystoreFailure (Error err)) s2
              | Inr repo \<Rightarrow>
                  (let s3 = called (Call_keystore_Create repo (get request ''controller'')) s2
                   in case keystore_Create p repo (get request ''controller'') of
                        Inl err \<Rightarrow>
                          writeErrorResponse p StatusInternalServerError (createKeystoreFailure (Error err)) s3
                      | Inr keystoreID \<Rightarrow>
                          WriteHeader StatusCreated
                            (Header_Set ''Location'' (keystoreLocation (Host req) keystoreID) s3))))"

definition createKeyHandler :: "Provider \<Rightarrow> Request \<Rightarrow> state \<Rightarrow> state" where
  "createKeyHandler p req s =
     (case parseRequest p req s of
        (None, s1) \<Rightarrow> s1
      | (Some request, s1) \<Rightarrow>
          (let keystoreID = get (Vars req) keystoreIDQueryParam
           in case prepareKMSProvider p keystoreID (get request ''passphrase'') s1 of
                (None, s2) \<Rightarrow> s2
              | (Some kmsProvider, s2) \<Rightarrow>
                  (let s3 = called (Call_CreateKey kmsProvider keystoreID (get request ''keyType'')) s2
                   in case CreateKey p kmsProvider keystoreID (get request ''keyType'') of
                        Inl err \<Rightarrow>
                          writeErrorResponse p StatusInternalServerError (createKeyFailure (Error err)) s3
                      | Inr keyID \<Rightarrow>
                          WriteHeader StatusCreated
                            (Header_Set ''Location'' (keyLocation (Host req) keystoreID keyID) s3))))"

definition signHandler :: "Provider \<Rightarrow> Request \<Rightarrow> state \<Rightarrow> state" where
  "signHandler p req s =
     (case parseRequest p req s of
        (None, s1) \<Rightarrow> s1
      | (Some request, s1) \<Rightarrow>
          (let keystoreID = get (Vars req) keystoreIDQueryParam;
               keyID = get (Vars req) keyIDQueryParam
           in case prepareKMSProvider p keystoreID (get request ''passphrase'') s1 of
                (None, s2) \<Rightarrow> s2
              | (Some provider, s2) \<Rightarrow>
                  (let s3 = called (Call_Sign provider keystoreID keyID (get request ''message'')) s2
                   in case Sign p provider keystoreID keyID (get request ''message'') of
                        Inl err \<Rightarrow>
                          writeErrorResponse p StatusInternalServerError (signMessageFailure (Error err)) s3
                      | Inr signature \<Rightarrow>
                          writeResponse p (signResp (EncodeToString signature)) s3)))"

definition verifyHandler :: "Provider \<Rightarrow> Request \<Rightarrow> state \<Rightarrow> state" where
  "verifyHandler p req s =
     (case parseRequest p req s of
        (None, s1) \<Rightarrow> s1
      | (Some request, s1) \<Rightarrow>
          (let keystoreID = get (Vars req) keystoreIDQueryParam;
               keyID = get (Vars req) keyIDQueryParam
           in case prepareKMSProvider p keystoreID (get request ''passphrase'') s1 of
                (None, s2) \<Rightarrow> s2
              | (Some provider, s2) \<Rightarrow>
                  (case DecodeString (get request ''signature'') of
                     Inl err \<Rightarrow>
                       writeErrorResponse p StatusBadRequest (receivedBadRequest (Error err)) s2
                   | Inr signature \<Rightarrow>
                       (let s3 = called (Call_Verify provider keystoreID keyID signature (get request ''message'')) s2
                        in case Verify p provider keystoreID keyID signature (get request ''message'') of
                             Some err \<Rightarrow>
                               (let status = (if errors_Is err ErrInvalidSignature then StatusOK
                                              else StatusInternalServerError)
                                in writeErrorResponse p status (verifyMessageFailure (Error err)) s3)
                           | None \<Rightarrow> WriteHeader StatusOK s3))))"

definition encryptHandler :: "Provider \<Rightarrow> Request \<Rightarrow> state \<Rightarrow> state" where
  "encryptHandler p req s =
     (case parseRequest p req s of
        (None, s1) \<Rightarrow> s1
      | (Some request, s1) \<Rightarrow>
          (let keystoreID = get (Vars req) keystoreIDQueryParam;
               keyID = get (Vars req) keyIDQueryParam
           in case prepareKMSProvider p keystoreID (get request ''passphrase'') s1 of
                (None, s2) \<Rightarrow> s2
              | (Some provider, s2) \<Rightarrow>
                  (let s3 = called (Call_Encrypt provider keystoreID keyID (get request ''message'') (get request ''aad'')) s2
                   in case Encrypt p provider keystoreID keyID (get request ''message'') (get request ''aad'') of
                        Inl err \<Rightarrow>
                          writeErrorResponse p StatusInternalServerError (encryptMessageFailure (Error err)) s3
                      | Inr (cipherText, nonce) \<Rightarrow>
                          writeResponse p (encryptResp (EncodeToString cipherText) (EncodeToString nonce)) s3)))"

definition decryptHandler :: "Provider \<Rightarrow> Request \<Rightarrow> state \<Rightarrow> state" where
  "decryptHandler p req s =
     (case parseRequest p req s of
        (None, s1) \<Rightarrow> s1
      | (Some request, s1) \<Rightarrow>
          (let keystoreID = get (Vars req) keystoreIDQueryParam;
               keyID = get (Vars req) keyIDQueryParam
           in case prepareKMSProvider p keystoreID (get request ''passphrase'') s1 of
                (None, s2) \<Rightarrow> s2
              | (Some provider, s2) \<Rightarrow>
                  (case DecodeString (get request ''cipherText'') of
                     Inl err \<Rightarrow>
                       writeErrorResponse p StatusBadRequest (receivedBadRequest (Error err)) s2
                   | Inr cipherText \<Rightarrow>
                       (case DecodeString (get request ''nonce'') of
                          Inl err \<Rightarrow>
                            writeErrorResponse p StatusBadRequest (receivedBadRequest (Error err)) s2
                        | Inr nonce \<Rightarrow>
                            (let s3 = called (Call_Decrypt provider keystoreID keyID cipherText (get request ''aad'') nonce) s2
                             in case Decrypt p provider keystoreID keyID cipherText (get request ''aad'') nonce of
                                  Inl err \<Rightarrow>
                                    writeErrorResponse p StatusInternalServerError (decryptMessageFailure (Error err)) s3
                                | Inr plainText \<Rightarrow> writeResponse p (decryptResp plainText) s3)))))"

text \<open>The endpoints that \<^verbatim>\<open>registerHandlers\<close> registers, all with the method POST.\<close>

datatype endpoint = CreateKeystore | CreateKeyEP | SignEP | VerifyEP | EncryptEP | DecryptEP

fun handle :: "endpoint \<Rightarrow> Provider \<Rightarrow> Request \<Rightarrow> state \<Rightarrow> state" where
  "handle CreateKeystore = createKeystoreHandler"
| "handle CreateKeyEP = createKeyHandler"
| "handle SignEP = signHandler"
| "handle VerifyEP = verifyHandler"
| "handle EncryptEP = encryptHandler"
| "handle DecryptEP = decryptHandler"

section \<open>The test doubles\<close>

text \<open>
  The provider and the requests of the package's tests: \<^verbatim>\<open>NewMockProvider\<close>, where
  every collaborator succeeds, and the request builders with the tests' constants.
\<close>

definition testKeyID :: string where
  "testKeyID = ''Fm4r2iwjYnswLRZKl38W''"

definition testKeystoreID :: string where
  "testKeystoreID = ''bsi5ct08vcqmquc0fn5g''"

definition testController :: string where
  "testController = ''did:example:123456789''"

definition testMessage :: string where
  "testMessage = ''test message''"

definition testAAD :: string where
  "testAAD = ''additional data''"

definition NewMockProvider :: Provider where
  "NewMockProvider =
     \<lparr>NewRepository = Inr 0,
      KMSCreator = (\<lambda>ctx. Inr 0),
      Crypto = 0,
      keystore_Create = (\<lambda>repo controller. Inr testKeystoreID),
      CreateKey = (\<lambda>provider keystoreID keyType. Inr testKeyID),
      Sign = (\<lambda>provider keystoreID keyID message. Inr ''signature''),
      Verify = (\<lambda>provider keystoreID keyID signature message. None),
      Encrypt = (\<lambda>provider keystoreID keyID message aad. Inr (''cipher text'', ''nonce'')),
      Decrypt = (\<lambda>provider keystoreID keyID cipherText aad nonce. Inr ''plain text''),
      rw_Write = None\<rparr>"

definition testVars :: "string \<rightharpoonup> string" where
  "testVars = [''keystoreID'' \<mapsto> testKeystoreID, ''keyID'' \<mapsto> testKeyID]"

text \<open>The empty body: the decoder returns \<^verbatim>\<open>io.EOF\<close>.\<close>

definition emptyBodyReq :: Request where
  "emptyBodyReq = \<lparr>Host = [], Vars = Map.empty, Body = Inl (errorString 1 ''EOF'')\<rparr>"

definition buildCreateKeystoreReq :: "string \<Rightarrow> Request" where
  "buildCreateKeystoreReq controller =
     \<lparr>Host = ''localhost:8070'', Vars = Map.empty, Body = Inr [''controller'' \<mapsto> controller]\<rparr>"

definition buildCreateKeyReq :: "string \<Rightarrow> Request" where
  "buildCreateKeyReq keyType =
     \<lparr>Host = ''localhost:8070'', Vars = [''keystoreID'' \<mapsto> testKeystoreID],
      Body = Inr [''keyType'' \<mapsto> keyType]\<rparr>"

definition buildSignReq :: "string \<Rightarrow> Request" where
  "buildSignReq message = \<lparr>Host = [], Vars = testVars, Body = Inr [''message'' \<mapsto> message]\<rparr>"

definition buildVerifyReq :: "string \<Rightarrow> Request" where
  "buildVerifyReq signature =
     \<lparr>Host = [], Vars = testVars,
      Body = Inr [''signature'' \<mapsto> signature, ''message'' \<mapsto> testMessage]\<rparr>"

definition buildEncryptReq :: "string \<Rightarrow> string \<Rightarrow> Request" where
  "buildEncryptReq message aad =
     \<lparr>Host = [], Vars = testVars, Body = Inr [''message'' \<mapsto> message, ''aad'' \<mapsto> aad]\<rparr>"

definition buildDecryptReq :: "string \<Rightarrow> string \<Rightarrow> Request" where
  "buildDecryptReq cipherText nonce =
     \<lparr>Host = [], Vars = testVars,
      Body = Inr [''cipherText'' \<mapsto> cipherText, ''aad'' \<mapsto> testAAD, ''nonce'' \<mapsto> nonce]\<rparr>"

section \<open>Reading a run\<close>

text \<open>The kinds of call, to say which ones a run made.\<close>

fun write_call :: "call \<Rightarrow> bool" where
  "write_call (Call_Write v) = True"
| "write_call c = False"

fun header_call :: "call \<Rightarrow> bool" where
  "header_call (Call_WriteHeader st) = True"
| "header_call c = False"

fun creator_call :: "call \<Rightarrow> bool" where
  "creator_call (Call_KMSCreator ctx) = True"
| "creator_call c = False"

text \<open>The capability an endpoint is for: the service call after provisioning.\<close>

fun target_call :: "call \<Rightarrow> bool" where
  "target_call (Call_CreateKey provider keystoreID keyType) = True"
| "target_call (Call_Sign provider keystoreID keyID message) = True"
| "target_call (Call_Verify provider keystoreID keyID signature message) = True"
| "target_call (Call_Encrypt provider keystoreID keyID message aad) = True"
| "target_call (Call_Decrypt provider keystoreID keyID cipherText aad nonce) = True"
| "target_call c = False"

text \<open>The calls on the Keystore Repository and its service.\<close>

fun repository_call :: "call \<Rightarrow> bool" where
  "repository_call Call_NewRepository = True"
| "repository_call (Call_keystore_Create repo controller) = True"
| "repository_call c = False"

text \<open>Storage, key manager and crypto: every call but those on the response writer.\<close>

fun capability_call :: "call \<Rightarrow> bool" where
  "capability_call (Call_WriteHeader st) = False"
| "capability_call (Call_Write v) = False"
| "capability_call c = True"

section \<open>Steps of a handler\<close>

lemmas handler_defs = createKeystoreHandler_def createKeyHandler_def signHandler_def
  verifyHandler_def encryptHandler_def decryptHandler_def

lemmas step_defs = parseRequest_def prepareKMSProvider_def writeErrorResponse_def
  writeResponse_def Encode_def WriteHeader_def Header_Set_def called_def NewRecorder_def Let_def

lemmas base64_eval = DecodeString_def decodeMap_def encodeURL_def encode_def quantum_def
  padding_def finish_def padChar_def char_of_eq_iff numeral_2_eq_2 [symmetric]

lemmas scanner_eval = readValue_def Valid_def reset_def scan_step_def scan_eof_def
  stateBeginValueOrEmpty_def stateBeginValue_def stateBeginStringOrEmpty_def stateBeginString_def
  stateEndValue_def stateEndTop_def stateInString_def stateInStringEsc_def stateInStringEscU_def
  stateNeg_def state0_def state1_def stateDot_def stateDot0_def stateE_def stateESign_def
  stateE0_def stateLiteral_def scan_error_def pushParseState_def popParseState_def
  maxNestingDepth_def isSpace_def isDigit_def isHex_def quoteChar_def appendEscapedRune_def
  IsPrint_def EncodeRune_def lowerhex_def SyntaxError_def io_EOF_def io_ErrUnexpectedEOF_def
  char_of_eq_iff Let_def

lemmas state_defs = scan_step_def
  stateBeginValueOrEmpty_def stateBeginValue_def stateBeginStringOrEmpty_def stateBeginString_def
  stateEndValue_def stateEndTop_def stateInString_def stateInStringEsc_def stateInStringEscU_def
  stateNeg_def state0_def state1_def stateDot_def stateDot0_def stateE_def stateESign_def
  stateE0_def stateLiteral_def scan_error_def pushParseState_def popParseState_def Let_def

lemmas test_defs = NewMockProvider_def emptyBodyReq_def buildCreateKeystoreReq_def
  buildCreateKeyReq_def buildSignReq_def buildVerifyReq_def buildEncryptReq_def
  buildDecryptReq_def testVars_def testKeyID_def testKeystoreID_def testController_def
  testMessage_def testAAD_def get_def keystoreIDQueryParam_def keyIDQueryParam_def

section \<open>The verify endpoint: rejection is not failure\<close>

text \<open>
  Claim C1. For every verify request that reaches the verify capability (the call is in the
  run, with the arguments the handler gave it): if the capability returns no error, the
  status is 200 and no body is written; if it returns an error that
  \<^verbatim>\<open>errors.Is\<close> finds to be \<^verbatim>\<open>ErrInvalidSignature\<close>, the status is 200
  and the body is the error response with the verify-failure message around the error's
  text; for any other error the status is 500 with the same message. The body reaches the
  client when the writer accepts it.
\<close>

theorem verifyHandler_status:
  assumes "Call_Verify provider keystoreID keyID signature message
             \<in> set (calls (verifyHandler p req NewRecorder))"
  shows "case Verify p provider keystoreID keyID signature message of
           None \<Rightarrow>
             rr_Code (verifyHandler p req NewRecorder) = Some StatusOK \<and>
             rr_Body (verifyHandler p req NewRecorder) = [] \<and>
             filter write_call (calls (verifyHandler p req NewRecorder)) = []
         | Some err \<Rightarrow>
             rr_Code (verifyHandler p req NewRecorder) =
               Some (if errors_Is err ErrInvalidSignature then StatusOK
                     else StatusInternalServerError) \<and>
             filter write_call (calls (verifyHandler p req NewRecorder)) =
               [Call_Write (errorResponse (verifyMessageFailure (Error err)))] \<and>
             rr_Body (verifyHandler p req NewRecorder) =
               (case rw_Write p of
                  None \<Rightarrow> [errorResponse (verifyMessageFailure (Error err))]
                | Some e \<Rightarrow> [])"
  using assms
  by (auto simp add: verifyHandler_def step_defs split: sum.splits option.splits prod.splits)

text \<open>
  The tests' request with the signature \<^verbatim>\<open>c2lnbmF0dXJl\<close>, and a verify capability
  that rejects it with an error wrapping \<^verbatim>\<open>ErrInvalidSignature\<close>.
\<close>

theorem verifyHandler_status_witness:
  "rr_Code (verifyHandler
      (NewMockProvider\<lparr>Verify := \<lambda>provider keystoreID keyID signature message.
         Some (wrapError 2 ''verify msg: invalid signature'' ErrInvalidSignature)\<rparr>)
      (buildVerifyReq ''c2lnbmF0dXJl'') NewRecorder) = Some StatusOK \<and>
   rr_Body (verifyHandler
      (NewMockProvider\<lparr>Verify := \<lambda>provider keystoreID keyID signature message.
         Some (wrapError 2 ''verify msg: invalid signature'' ErrInvalidSignature)\<rparr>)
      (buildVerifyReq ''c2lnbmF0dXJl'') NewRecorder) =
     [errorResponse ''Failed to verify a message: verify msg: invalid signature'']"
proof -
  let ?p = "NewMockProvider\<lparr>Verify := \<lambda>provider keystoreID keyID signature message.
         Some (wrapError 2 ''verify msg: invalid signature'' ErrInvalidSignature)\<rparr>"
  have d: "DecodeString ''c2lnbmF0dXJl'' = Inr ''signature''"
    by (simp add: base64_eval)
  have reached: "Call_Verify \<lparr>keystore = 0, kms = 0, crypto = 0\<rparr> testKeystoreID testKeyID
            ''signature'' testMessage
          \<in> set (calls (verifyHandler ?p (buildVerifyReq ''c2lnbmF0dXJl'') NewRecorder))"
    by (simp add: verifyHandler_def step_defs test_defs d)
  show ?thesis
    using verifyHandler_status [OF reached]
    by (simp add: NewMockProvider_def ErrInvalidSignature_def verifyMessageFailure_def)
qed

section \<open>Base64 fields are decoded after provisioning\<close>

text \<open>
  Claim C2, as the code has it. A request to verify with a malformed base64
  \<^verbatim>\<open>signature\<close>, or to decrypt with a malformed base64 \<^verbatim>\<open>cipherText\<close>
  or \<^verbatim>\<open>nonce\<close>, whose JSON body parses, never reaches the crypto capability. Its
  fields are decoded after the provider is built: when the repository opens and the
  key-manager constructor succeeds, the response is 400 with the bad-request message
  around the decode error's text; when either fails, the response is 500.
\<close>

theorem malformed_base64:
  assumes "Body req = Inr request"
    and "ep = VerifyEP \<and> DecodeString (get request ''signature'') = Inl err \<or>
         ep = DecryptEP \<and> DecodeString (get request ''cipherText'') = Inl err \<or>
         ep = DecryptEP \<and> DecodeString (get request ''cipherText'') = Inr cipherText \<and>
           DecodeString (get request ''nonce'') = Inl err"
  shows "filter target_call (calls (handle ep p req NewRecorder)) = [] \<and>
         (case NewRepository p of
            Inl e \<Rightarrow> rr_Code (handle ep p req NewRecorder) = Some StatusInternalServerError
          | Inr repo \<Rightarrow>
              (case KMSCreator p \<lparr>KeystoreID = get (Vars req) keystoreIDQueryParam,
                                  Passphrase = get request ''passphrase''\<rparr> of
                 Inl e \<Rightarrow> rr_Code (handle ep p req NewRecorder) = Some StatusInternalServerError
               | Inr keyManager \<Rightarrow>
                   rr_Code (handle ep p req NewRecorder) = Some StatusBadRequest \<and>
                   filter write_call (calls (handle ep p req NewRecorder)) =
                     [Call_Write (errorResponse (receivedBadRequest (Error err)))] \<and>
                   rr_Body (handle ep p req NewRecorder) =
                     (case rw_Write p of
                        None \<Rightarrow> [errorResponse (receivedBadRequest (Error err))]
                      | Some e \<Rightarrow> [])))"
  using assms
  by (cases ep) (auto simp add: handler_defs step_defs split: sum.splits option.splits prod.splits)

text \<open>The tests' request with the signature \<^verbatim>\<open>!signature\<close>, on the mock provider.\<close>

theorem malformed_base64_witness:
  "rr_Code (handle VerifyEP NewMockProvider (buildVerifyReq ''!signature'') NewRecorder) =
     Some StatusBadRequest \<and>
   rr_Body (handle VerifyEP NewMockProvider (buildVerifyReq ''!signature'') NewRecorder) =
     [errorResponse ''Received bad request: illegal base64 data at input byte 0''] \<and>
   filter target_call
     (calls (handle VerifyEP NewMockProvider (buildVerifyReq ''!signature'') NewRecorder)) = []"
proof -
  have b: "Body (buildVerifyReq ''!signature'') =
      Inr [''signature'' \<mapsto> ''!signature'', ''message'' \<mapsto> testMessage]"
    by (simp add: buildVerifyReq_def)
  have d: "VerifyEP = VerifyEP \<and>
        DecodeString (get [''signature'' \<mapsto> ''!signature'', ''message'' \<mapsto> testMessage] ''signature'')
          = Inl (CorruptInputError 0) \<or>
      VerifyEP = DecryptEP \<and>
        DecodeString (get [''signature'' \<mapsto> ''!signature'', ''message'' \<mapsto> testMessage] ''cipherText'')
          = Inl (CorruptInputError 0) \<or>
      VerifyEP = DecryptEP \<and>
        DecodeString (get [''signature'' \<mapsto> ''!signature'', ''message'' \<mapsto> testMessage] ''cipherText'')
          = Inr [] \<and>
        DecodeString (get [''signature'' \<mapsto> ''!signature'', ''message'' \<mapsto> testMessage] ''nonce'')
          = Inl (CorruptInputError 0)"
    by (simp add: get_def base64_eval)
  show ?thesis
    using malformed_base64 [OF b d, of NewMockProvider]
    by (simp add: NewMockProvider_def receivedBadRequest_def char_of_eq_iff)
qed

text \<open>
  The claim as the spec states it (400 whether or not the provider can be built) fails: the
  same request, when the key-manager constructor fails, is answered with 500 and the
  provider-creation message.
\<close>

theorem malformed_base64_counterexample:
  "DecodeString ''!signature'' = Inl (CorruptInputError 0) \<and>
   rr_Code (verifyHandler
       (NewMockProvider\<lparr>KMSCreator := \<lambda>ctx. Inl (errorString 3 ''kms creator error'')\<rparr>)
       (buildVerifyReq ''!signature'') NewRecorder) = Some StatusInternalServerError \<and>
   rr_Code (verifyHandler
       (NewMockProvider\<lparr>KMSCreator := \<lambda>ctx. Inl (errorString 3 ''kms creator error'')\<rparr>)
       (buildVerifyReq ''!signature'') NewRecorder) \<noteq> Some StatusBadRequest \<and>
   rr_Body (verifyHandler
       (NewMockProvider\<lparr>KMSCreator := \<lambda>ctx. Inl (errorString 3 ''kms creator error'')\<rparr>)
       (buildVerifyReq ''!signature'') NewRecorder) =
     [errorResponse ''Failed to create a kms provider: kms creator error'']"
  by (simp add: verifyHandler_def step_defs test_defs base64_eval createKMSProviderFailure_def)

section \<open>Provider creation failures\<close>



section \<open>Bodies the decoder refuses\<close>

subsection \<open>A syntax error means invalid JSON\<close>

lemma stateEndValue_stepped:
  assumes "scanning s" and "stateEndValue s c = (op, s')"
  shows "stepped op s'"
  using assms
  by (auto simp add: stepped_def scanning_def stateEndValue_def stateEndTop_def scan_error_def
      popParseState_def Let_def split: list.splits parse_state.splits if_splits)

lemma scanning_parseState [simp]: "scanning (s\<lparr>parseState := ps\<rparr>) = scanning s"
  by (simp add: scanning_def)

lemma continue_stepped:
  "scanning s \<Longrightarrow> next \<noteq> StepEndTop \<Longrightarrow> next \<noteq> StepError \<Longrightarrow>
     op \<noteq> scanEndObject \<Longrightarrow> op \<noteq> scanEndArray \<Longrightarrow> stepped op (s\<lparr>step := next\<rparr>)"
  by (simp add: stepped_def scanning_def)

lemma same_stepped:
  "scanning s \<Longrightarrow> op \<noteq> scanEndObject \<Longrightarrow> op \<noteq> scanEndArray \<Longrightarrow> stepped op s"
  by (simp add: stepped_def)

lemma scan_error_stepped: "scanning s \<Longrightarrow> scan_error s c context = (op, s') \<Longrightarrow> stepped op s'"
  by (auto simp add: stepped_def scanning_def scan_error_def)

lemma push_stepped:
  "scanning s \<Longrightarrow> step s \<noteq> StepEndTop \<Longrightarrow> op \<noteq> scanEndObject \<Longrightarrow> op \<noteq> scanEndArray \<Longrightarrow>
     pushParseState s c ps op = (op', s') \<Longrightarrow> stepped op' s'"
  by (auto simp add: pushParseState_def Let_def stepped_def scanning_def scan_error_def split: if_splits)

lemma stateBeginValue_stepped:
  "scanning s \<Longrightarrow> stateBeginValue s c = (op, s') \<Longrightarrow> stepped op s'"
  by (auto simp add: stateBeginValue_def split: if_splits
      intro: continue_stepped same_stepped scan_error_stepped
      elim!: push_stepped [rotated 4] simp add: scanning_def)


lemma stateBeginString_stepped:
  "scanning s \<Longrightarrow> stateBeginString s c = (op, s') \<Longrightarrow> stepped op s'"
  by (auto simp add: stateBeginString_def stepped_def scanning_def scan_error_def split: if_splits)

lemma stateBeginStringOrEmpty_stepped:
  "scanning s \<Longrightarrow> stateBeginStringOrEmpty s c = (op, s') \<Longrightarrow> stepped op s'"
  using stateEndValue_stepped [of "s\<lparr>parseState := parseObjectValue # tl (parseState s)\<rparr>" c op s']
    stateBeginString_stepped [of s c op s']
  by (auto simp add: stateBeginStringOrEmpty_def same_stepped split: if_splits)

lemma stateBeginValueOrEmpty_stepped:
  "scanning s \<Longrightarrow> stateBeginValueOrEmpty s c = (op, s') \<Longrightarrow> stepped op s'"
  using stateEndValue_stepped [of s c op s'] stateBeginValue_stepped [of s c op s']
  by (auto simp add: stateBeginValueOrEmpty_def same_stepped split: if_splits)

lemma string_stepped:
  "scanning s \<Longrightarrow> stateInString s c = (op, s') \<Longrightarrow> stepped op s'"
  "scanning s \<Longrightarrow> stateInStringEsc s c = (op, s') \<Longrightarrow> stepped op s'"
  "scanning s \<Longrightarrow> next \<noteq> StepEndTop \<Longrightarrow> next \<noteq> StepError \<Longrightarrow>
     stateInStringEscU next s c = (op, s') \<Longrightarrow> stepped op s'"
  "scanning s \<Longrightarrow> next \<noteq> StepEndTop \<Longrightarrow> next \<noteq> StepError \<Longrightarrow>
     stateLiteral literal expected next s c = (op, s') \<Longrightarrow> stepped op s'"
  by (auto simp add: stateInString_def stateInStringEsc_def stateInStringEscU_def stateLiteral_def
      stepped_def scanning_def scan_error_def split: if_splits)

lemma number_stepped:
  "scanning s \<Longrightarrow> stateNeg s c = (op, s') \<Longrightarrow> stepped op s'"
  "scanning s \<Longrightarrow> stateDot s c = (op, s') \<Longrightarrow> stepped op s'"
  "scanning s \<Longrightarrow> stateESign s c = (op, s') \<Longrightarrow> stepped op s'"
  "scanning s \<Longrightarrow> stateE s c = (op, s') \<Longrightarrow> stepped op s'"
  by (auto simp add: stateNeg_def stateDot_def stateESign_def stateE_def
      stepped_def scanning_def scan_error_def split: if_splits)

lemma state0_stepped:
  "scanning s \<Longrightarrow> state0 s c = (op, s') \<Longrightarrow> stepped op s'"
  using stateEndValue_stepped [of s c op s']
  by (auto simp add: state0_def continue_stepped split: if_splits)

lemma number_end_stepped:
  "scanning s \<Longrightarrow> state1 s c = (op, s') \<Longrightarrow> stepped op s'"
  "scanning s \<Longrightarrow> stateDot0 s c = (op, s') \<Longrightarrow> stepped op s'"
  "scanning s \<Longrightarrow> stateE0 s c = (op, s') \<Longrightarrow> stepped op s'"
  using stateEndValue_stepped [of s c op s'] state0_stepped [of s c op s']
  by (auto simp add: state1_def stateDot0_def stateE0_def continue_stepped same_stepped
      split: if_splits)

lemma scan_step_stepped:
  assumes "scanning s" and "scan_step s c = (op, s')"
  shows "stepped op s'"
proof (cases "step s")
  case StepEndTop
  with assms(1) show ?thesis by (simp add: scanning_def)
next
  case StepError
  with assms(1) show ?thesis by (simp add: scanning_def)
qed (use assms in \<open>auto simp add: scan_step_def
      intro: stateBeginValueOrEmpty_stepped stateBeginValue_stepped stateBeginStringOrEmpty_stepped
        stateBeginString_stepped stateEndValue_stepped string_stepped number_stepped
        state0_stepped number_end_stepped\<close>)


lemma space_closes_nothing:
  "scan_step s (CHR '' '') = (op, s') \<Longrightarrow> op \<noteq> scanEndObject \<and> op \<noteq> scanEndArray"
  by (cases "step s")
    (auto simp add: state_defs isSpace_def isDigit_def isHex_def split: list.splits if_splits)

lemma stateEndValue_space:
  "parseState s = [] \<Longrightarrow> fst (stateEndValue s (CHR '' '')) = scanEnd"
  "parseState s \<noteq> [] \<Longrightarrow> step s = StepEndValue \<Longrightarrow>
     stateEndValue s (CHR '' '') = (scanSkipSpace, s)"
  by (auto simp add: stateEndValue_def stateEndTop_def isSpace_def split: list.splits)

lemma readValue_error_invalid:
  "scanning s \<Longrightarrow> readValue_scan s scanp buf cs = Inl err \<Longrightarrow> \<not> checkValid s cs"
proof (induction cs arbitrary: s scanp)
  case Nil
  obtain op s' where st: "scan_step s (CHR '' '') = (op, s')"
    by (cases "scan_step s (CHR '' '')")
  from Nil.prems(2) st have "op \<noteq> scanEnd"
    by (auto split: if_splits)
  moreover have "stepped op s'"
    using Nil.prems(1) st by (rule scan_step_stepped)
  ultimately have "\<not> endTop s'"
    using space_closes_nothing [OF st] by (auto simp add: stepped_def scanning_def)
  with Nil.prems(1) st show ?case
    by (simp add: scan_eof_def scanning_def)
next
  case (Cons c cs)
  obtain op s' where st: "scan_step s c = (op, s')"
    by (cases "scan_step s c")
  have sd: "stepped op s'"
    using Cons.prems(1) st by (rule scan_step_stepped)
  consider "op = scanError" | "op = scanEnd"
    | "op = scanEndObject \<or> op = scanEndArray" "parseState s' = []"
    | "op = scanEndObject \<or> op = scanEndArray" "parseState s' \<noteq> []" "step s' = StepEndValue" "scanning s'"
    | "op \<noteq> scanEndObject" "op \<noteq> scanEndArray" "op \<noteq> scanError" "op \<noteq> scanEnd" "scanning s'"
    using sd by (auto simp add: stepped_def)
  then show ?case
  proof cases
    case 1
    with st show ?thesis by simp
  next
    case 2
    with st Cons.prems(2) show ?thesis by simp
  next
    case 3
    obtain op' s'' where e: "stateEndValue s' (CHR '' '') = (op', s'')"
      by (cases "stateEndValue s' (CHR '' '')")
    with stateEndValue_space(1) [OF 3(2)] have "op' = scanEnd"
      by simp
    with 3(1) st e Cons.prems(2) show ?thesis
      by auto
  next
    case 4
    have e: "stateEndValue s' (CHR '' '') = (scanSkipSpace, s')"
      using 4(2,3) by (rule stateEndValue_space(2))
    with 4(1) st Cons.prems(2) have "readValue_scan s' (Suc scanp) buf cs = Inl err"
      by auto
    from Cons.IH [OF 4(4) this] 4(1) st show ?thesis
      by auto
  next
    case 5
    with st Cons.prems(2) have "readValue_scan s' (Suc scanp) buf cs = Inl err"
      by (cases op) simp_all
    from Cons.IH [OF 5(5) this] 5(3) st show ?thesis
      by (cases op) simp_all
  qed
qed

lemma readValue_error_not_Valid: "readValue buf = Inl err \<Longrightarrow> \<not> Valid buf"
  unfolding readValue_def Valid_def
  by (rule readValue_error_invalid) (simp_all add: scanning_def reset_def)

subsection \<open>The response\<close>

lemma decode_error_response:
  assumes "Body req = Inl err"
  shows "rr_Code (handle ep p req NewRecorder) = Some StatusBadRequest \<and>
         calls (handle ep p req NewRecorder) =
           [Call_WriteHeader StatusBadRequest,
            Call_Write (errorResponse (receivedBadRequest (Error err)))] \<and>
         rr_Body (handle ep p req NewRecorder) =
           (case rw_Write p of
              None \<Rightarrow> [errorResponse (receivedBadRequest (Error err))]
            | Some e \<Rightarrow> []) \<and>
         filter capability_call (calls (handle ep p req NewRecorder)) = []"
  using assms
  by (cases ep) (auto simp add: handler_defs step_defs split: sum.splits option.splits prod.splits)

text \<open>
  Claim C4, as the code has it. On every endpoint, a request body on which the JSON decoder
  returns an error is answered with 400 and the error response with the bad-request message
  around the decoder's error text; the run consists of these two calls on the response
  writer, so no storage, key-manager or crypto capability is called. The decoder returns an
  error when the first JSON value of the body is missing, cut short or malformed, or does
  not fit the request struct; every such body is not valid JSON for the endpoint's request
  struct. The converse does not hold: the decoder does not look at the bytes after the
  first value.
\<close>

theorem bad_request:
  assumes "Decode b = Inl err"
  shows "(\<not> Valid (bytes b) \<or> unmarshalled b = Inl err) \<and>
         rr_Code (handle ep p (receive host vars b) NewRecorder) = Some StatusBadRequest \<and>
         calls (handle ep p (receive host vars b) NewRecorder) =
           [Call_WriteHeader StatusBadRequest,
            Call_Write (errorResponse (receivedBadRequest (Error err)))] \<and>
         rr_Body (handle ep p (receive host vars b) NewRecorder) =
           (case rw_Write p of
              None \<Rightarrow> [errorResponse (receivedBadRequest (Error err))]
            | Some e \<Rightarrow> []) \<and>
         filter capability_call (calls (handle ep p (receive host vars b) NewRecorder)) = []"
proof -
  have "Body (receive host vars b) = Inl err"
    using assms by (simp add: receive_def)
  moreover have "\<not> Valid (bytes b) \<or> unmarshalled b = Inl err"
    using assms readValue_error_not_Valid [of "bytes b" err]
    by (auto simp add: Decode_def split: sum.splits)
  ultimately show ?thesis
    using decode_error_response [of "receive host vars b" err ep p] by simp
qed

text \<open>
  The tests' empty body on the decrypt endpoint, and on the create-keystore endpoint a body
  whose controller is not a JSON value.
\<close>

theorem bad_request_witness:
  \<open>rr_Code (handle DecryptEP NewMockProvider
       (receive [] testVars \<lparr>bytes = [], unmarshalled = Inr Map.empty\<rparr>) NewRecorder) =
     Some StatusBadRequest \<and>
   rr_Body (handle DecryptEP NewMockProvider
       (receive [] testVars \<lparr>bytes = [], unmarshalled = Inr Map.empty\<rparr>) NewRecorder) =
     [errorResponse ''Received bad request: EOF''] \<and>
   filter capability_call (calls (handle DecryptEP NewMockProvider
       (receive [] testVars \<lparr>bytes = [], unmarshalled = Inr Map.empty\<rparr>) NewRecorder)) = [] \<and>
   rr_Code (handle CreateKeystore NewMockProvider
       (receive ''localhost:8070'' Map.empty
          \<lparr>bytes = ''{"controller": did}'', unmarshalled = Inr Map.empty\<rparr>) NewRecorder) =
     Some StatusBadRequest \<and>
   rr_Body (handle CreateKeystore NewMockProvider
       (receive ''localhost:8070'' Map.empty
          \<lparr>bytes = ''{"controller": did}'', unmarshalled = Inr Map.empty\<rparr>) NewRecorder) =
     [errorResponse (''Received bad request: invalid character '' @ [CHR 0x27, CHR ''d'', CHR 0x27] @
        '' looking for beginning of value'')]\<close>
proof -
  have e: "Decode \<lparr>bytes = [], unmarshalled = Inr Map.empty\<rparr> = Inl (errorString 1 ''EOF'')"
    by (simp add: Decode_def scanner_eval)
  have d: \<open>Decode \<lparr>bytes = ''{"controller": did}'', unmarshalled = Inr Map.empty\<rparr> =
      Inl (errorString 3 (''invalid character '' @ [CHR 0x27, CHR ''d'', CHR 0x27] @
        '' looking for beginning of value''))\<close>
    by (simp add: Decode_def scanner_eval)
  show ?thesis
    using bad_request [OF e, of DecryptEP NewMockProvider "[]" testVars]
      bad_request [OF d, of CreateKeystore NewMockProvider "''localhost:8070''" Map.empty]
    by (simp add: NewMockProvider_def receivedBadRequest_def)
qed

text \<open>
  The claim as the spec states it (400 for every body that is not valid JSON) fails on a
  body that is a JSON object followed by other bytes: \<^verbatim>\<open>json.Valid\<close> refuses it, the
  decoder reads the object and stops, and the keystore is created.
\<close>

theorem bad_request_counterexample:
  \<open>\<not> Valid ''{"controller":"did:example:123456789"} garbage'' \<and>
   Decode \<lparr>bytes = ''{"controller":"did:example:123456789"} garbage'',
           unmarshalled = Inr [''controller'' \<mapsto> testController]\<rparr> =
     Inr [''controller'' \<mapsto> testController] \<and>
   calls (handle CreateKeystore NewMockProvider
       (receive ''localhost:8070'' Map.empty
          \<lparr>bytes = ''{"controller":"did:example:123456789"} garbage'',
            unmarshalled = Inr [''controller'' \<mapsto> testController]\<rparr>) NewRecorder) =
     [Call_NewRepository, Call_keystore_Create 0 testController, Call_WriteHeader StatusCreated] \<and>
   rr_Code (handle CreateKeystore NewMockProvider
       (receive ''localhost:8070'' Map.empty
          \<lparr>bytes = ''{"controller":"did:example:123456789"} garbage'',
            unmarshalled = Inr [''controller'' \<mapsto> testController]\<rparr>) NewRecorder) =
     Some StatusCreated \<and>
   rr_Code (handle CreateKeystore NewMockProvider
       (receive ''localhost:8070'' Map.empty
          \<lparr>bytes = ''{"controller":"did:example:123456789"} garbage'',
            unmarshalled = Inr [''controller'' \<mapsto> testController]\<rparr>) NewRecorder) \<noteq>
     Some StatusBadRequest\<close>
proof -
  have v: \<open>\<not> Valid ''{"controller":"did:example:123456789"} garbage''\<close>
    by (simp add: scanner_eval)
  have r: \<open>readValue ''{"controller":"did:example:123456789"} garbage'' = Inr 38\<close>
    by (simp add: scanner_eval)
  show ?thesis
    using v by (simp add: Decode_def receive_def r createKeystoreHandler_def step_defs test_defs)
qed

section \<open>Creating a keystore\<close>

text \<open>
  Claim C5, as the code has it. Parsing a create-keystore request asks only that the body
  decodes: a request whose \<^verbatim>\<open>controller\<close> is absent or empty is not refused. When
  the repository opens, the service's \<^verbatim>\<open>Create\<close> is called with the empty
  controller, and the status is 201 or 500 by its result; when it does not open, the status
  is 500. It is never 400.
\<close>

theorem createKeystore_controller_unchecked:
  assumes "Body req = Inr request"
    and "request ''controller'' = None \<or> request ''controller'' = Some []"
  shows "case NewRepository p of
           Inl err \<Rightarrow>
             rr_Code (createKeystoreHandler p req NewRecorder) = Some StatusInternalServerError
         | Inr repo \<Rightarrow>
             Call_keystore_Create repo [] \<in> set (calls (createKeystoreHandler p req NewRecorder)) \<and>
             (case keystore_Create p repo [] of
                Inl err \<Rightarrow>
                  rr_Code (createKeystoreHandler p req NewRecorder) = Some StatusInternalServerError
              | Inr keystoreID \<Rightarrow>
                  rr_Code (createKeystoreHandler p req NewRecorder) = Some StatusCreated)"
  using assms
  by (auto simp add: handler_defs step_defs get_def split: sum.splits option.splits prod.splits)

text \<open>The body \<^verbatim>\<open>{"controller": ""}\<close> on the mock provider.\<close>

theorem createKeystore_controller_unchecked_witness:
  "Call_keystore_Create 0 []
     \<in> set (calls (createKeystoreHandler NewMockProvider (buildCreateKeystoreReq []) NewRecorder)) \<and>
   rr_Code (createKeystoreHandler NewMockProvider (buildCreateKeystoreReq []) NewRecorder) =
     Some StatusCreated"
proof -
  have b: "Body (buildCreateKeystoreReq []) = Inr [''controller'' \<mapsto> []]"
    by (simp add: buildCreateKeystoreReq_def)
  have c: "[''controller'' \<mapsto> []] ''controller'' = None \<or>
           [''controller'' \<mapsto> []] ''controller'' = Some ([] :: string)"
    by simp
  show ?thesis
    using createKeystore_controller_unchecked [OF b c, of NewMockProvider]
    by (simp add: NewMockProvider_def)
qed

text \<open>
  The claim as the spec states it (such a request ends as a failed parse and does not reach
  \<^verbatim>\<open>Create\<close>) fails on the body \<^verbatim>\<open>{}\<close>: the run opens the repository,
  calls \<^verbatim>\<open>Create\<close> with the empty controller and answers 201.
\<close>

theorem createKeystore_controller_unchecked_counterexample:
  "calls (createKeystoreHandler NewMockProvider
       \<lparr>Host = ''localhost:8070'', Vars = Map.empty, Body = Inr Map.empty\<rparr> NewRecorder) =
     [Call_NewRepository, Call_keystore_Create 0 [], Call_WriteHeader StatusCreated] \<and>
   rr_Code (createKeystoreHandler NewMockProvider
       \<lparr>Host = ''localhost:8070'', Vars = Map.empty, Body = Inr Map.empty\<rparr> NewRecorder) =
     Some StatusCreated \<and>
   rr_Code (createKeystoreHandler NewMockProvider
       \<lparr>Host = ''localhost:8070'', Vars = Map.empty, Body = Inr Map.empty\<rparr> NewRecorder) \<noteq>
     Some StatusBadRequest"
  by (simp add: createKeystoreHandler_def step_defs test_defs)

section \<open>The Location header\<close>

lemma keystoreLocation_eq:
  "keystoreLocation hostURL keystoreID = hostURL @ ''/kms/keystores/'' @ keystoreID"
  by (simp add: keystoreLocation_def keystoreEndpoint_def keystoresEndpoint_def kmsBasePath_def
      keystoreIDQueryParam_def)

lemma keyLocation_eq:
  "keyLocation hostURL keystoreID keyID =
     hostURL @ ''/kms/keystores/'' @ keystoreID @ ''/keys/'' @ keyID"
  by (simp add: keyLocation_def keyEndpoint_def keysEndpoint_def keystoreEndpoint_def
      keystoresEndpoint_def kmsBasePath_def keystoreIDQueryParam_def keyIDQueryParam_def)

text \<open>
  Claim C6. When the keystore service's \<^verbatim>\<open>Create\<close> succeeds with a keystore ID,
  the create-keystore response is 201 and its \<^verbatim>\<open>Location\<close> header is the
  request's host, then \<^verbatim>\<open>/kms/keystores/\<close>, then the ID. When
  \<^verbatim>\<open>CreateKey\<close> succeeds with a key ID, the create-key response is 201 and its
  \<^verbatim>\<open>Location\<close> is the host, \<^verbatim>\<open>/kms/keystores/\<close>, the keystore ID of the
  URL path, \<^verbatim>\<open>/keys/\<close> and the key ID. The IDs are put in as they are: a brace in
  one of them is not read as a parameter again.
\<close>

theorem created_location:
  "(Call_keystore_Create repo controller \<in> set (calls (createKeystoreHandler p req NewRecorder)) \<and>
    keystore_Create p repo controller = Inr keystoreID \<longrightarrow>
      rr_Code (createKeystoreHandler p req NewRecorder) = Some StatusCreated \<and>
      rr_Header (createKeystoreHandler p req NewRecorder) ''Location'' =
        Some (Host req @ ''/kms/keystores/'' @ keystoreID)) \<and>
   (Call_CreateKey provider keystoreID' keyType \<in> set (calls (createKeyHandler p' req' NewRecorder)) \<and>
    CreateKey p' provider keystoreID' keyType = Inr keyID \<longrightarrow>
      keystoreID' = get (Vars req') keystoreIDQueryParam \<and>
      rr_Code (createKeyHandler p' req' NewRecorder) = Some StatusCreated \<and>
      rr_Header (createKeyHandler p' req' NewRecorder) ''Location'' =
        Some (Host req' @ ''/kms/keystores/'' @ keystoreID' @ ''/keys/'' @ keyID))"
  by (auto simp add: handler_defs step_defs keystoreLocation_eq keyLocation_eq
      split: sum.splits option.splits prod.splits)

text \<open>The tests' two requests, sent to the host of the BDD scenario.\<close>

theorem created_location_witness:
  "rr_Code (createKeystoreHandler NewMockProvider (buildCreateKeystoreReq testController) NewRecorder) =
     Some StatusCreated \<and>
   rr_Header (createKeystoreHandler NewMockProvider (buildCreateKeystoreReq testController) NewRecorder)
       ''Location'' = Some ''localhost:8070/kms/keystores/bsi5ct08vcqmquc0fn5g'' \<and>
   rr_Code (createKeyHandler NewMockProvider (buildCreateKeyReq ''ED25519'') NewRecorder) =
     Some StatusCreated \<and>
   rr_Header (createKeyHandler NewMockProvider (buildCreateKeyReq ''ED25519'') NewRecorder)
       ''Location'' =
     Some ''localhost:8070/kms/keystores/bsi5ct08vcqmquc0fn5g/keys/Fm4r2iwjYnswLRZKl38W''"
proof -
  have h1: "Call_keystore_Create 0 testController
        \<in> set (calls (createKeystoreHandler NewMockProvider
                  (buildCreateKeystoreReq testController) NewRecorder)) \<and>
      keystore_Create NewMockProvider 0 testController = Inr testKeystoreID"
    by (simp add: createKeystoreHandler_def step_defs test_defs)
  have h2: "Call_CreateKey \<lparr>keystore = 0, kms = 0, crypto = 0\<rparr> testKeystoreID ''ED25519''
        \<in> set (calls (createKeyHandler NewMockProvider (buildCreateKeyReq ''ED25519'') NewRecorder)) \<and>
      CreateKey NewMockProvider \<lparr>keystore = 0, kms = 0, crypto = 0\<rparr> testKeystoreID ''ED25519'' =
        Inr testKeyID"
    by (simp add: createKeyHandler_def step_defs test_defs)
  show ?thesis
    using h1 h2
      created_location [of 0 testController NewMockProvider
        "buildCreateKeystoreReq testController" testKeystoreID
        "\<lparr>keystore = 0, kms = 0, crypto = 0\<rparr>" testKeystoreID "''ED25519''" NewMockProvider
        "buildCreateKeyReq ''ED25519''" testKeyID]
    by (simp add: buildCreateKeystoreReq_def buildCreateKeyReq_def testKeystoreID_def testKeyID_def)
qed

section \<open>Provisioning\<close>

lemma createKeystore_calls:
  "filter creator_call (calls (createKeystoreHandler p req NewRecorder)) = [] \<and>
   filter capability_call (calls (createKeystoreHandler p req NewRecorder)) =
     filter repository_call (calls (createKeystoreHandler p req NewRecorder))"
  by (auto simp add: handler_defs step_defs split: sum.splits option.splits prod.splits)

lemma createKeystore_frame:
  "createKeystoreHandler (p\<lparr>KMSCreator := f\<rparr>)
     (req\<lparr>Body := map_sum id (\<lambda>request. request(''passphrase'' := v)) (Body req)\<rparr>) NewRecorder =
   createKeystoreHandler p req NewRecorder"
  by (auto simp add: handler_defs step_defs get_def split: sum.splits option.splits prod.splits)

lemma provisioned_calls_creator:
  "ep \<noteq> CreateKeystore \<Longrightarrow>
   filter creator_call (calls (handle ep NewMockProvider (buildSignReq testMessage) NewRecorder)) \<noteq> []"
  by (cases ep) (simp_all add: handler_defs step_defs test_defs base64_eval)

lemma creator_calls:
  "ep \<noteq> CreateKeystore \<Longrightarrow>
   filter creator_call (calls (handle ep p req NewRecorder)) =
     (case Body req of
        Inl err \<Rightarrow> []
      | Inr request \<Rightarrow>
          (case NewRepository p of
             Inl err \<Rightarrow> []
           | Inr repo \<Rightarrow>
               [Call_KMSCreator \<lparr>KeystoreID = get (Vars req) keystoreIDQueryParam,
                                 Passphrase = get request ''passphrase''\<rparr>]))"
  by (cases ep) (auto simp add: handler_defs step_defs split: sum.splits option.splits prod.splits)

text \<open>
  Claim C7. The create-keystore handler never calls the key-manager constructor; the only
  capabilities it calls are the Keystore Repository's (opening it, and the service's
  \<^verbatim>\<open>Create\<close>); its run is the same whatever the constructor is and whatever the
  body's \<^verbatim>\<open>passphrase\<close> member is, present or absent. It is the only endpoint with
  no call of the constructor on any provider and request.
\<close>

theorem createKeystore_skips_provisioning:
  "filter creator_call (calls (createKeystoreHandler p req NewRecorder)) = [] \<and>
   filter capability_call (calls (createKeystoreHandler p req NewRecorder)) =
     filter repository_call (calls (createKeystoreHandler p req NewRecorder)) \<and>
   createKeystoreHandler (p\<lparr>KMSCreator := f\<rparr>)
     (req\<lparr>Body := map_sum id (\<lambda>request. request(''passphrase'' := v)) (Body req)\<rparr>) NewRecorder =
   createKeystoreHandler p req NewRecorder \<and>
   ((\<forall>p' req'. filter creator_call (calls (handle ep p' req' NewRecorder)) = []) \<longleftrightarrow>
      ep = CreateKeystore)"
proof -
  have "(\<forall>p' req'. filter creator_call (calls (handle ep p' req' NewRecorder)) = []) \<longleftrightarrow>
      ep = CreateKeystore"
  proof
    assume a: "\<forall>p' req'. filter creator_call (calls (handle ep p' req' NewRecorder)) = []"
    show "ep = CreateKeystore"
    proof (rule ccontr)
      assume "ep \<noteq> CreateKeystore"
      from provisioned_calls_creator [OF this] a show False by blast
    qed
  next
    assume "ep = CreateKeystore"
    then show "\<forall>p' req'. filter creator_call (calls (handle ep p' req' NewRecorder)) = []"
      using createKeystore_calls by simp
  qed
  then show ?thesis
    using createKeystore_calls [of p req]
      createKeystore_frame [where p = p and f = f and req = req and v = v]
    by simp
qed

text \<open>
  The tests' create-keystore request: the same run with a passphrase in the body and a
  constructor that fails, and only repository calls in it.
\<close>

theorem createKeystore_skips_provisioning_witness:
  "filter creator_call
     (calls (createKeystoreHandler NewMockProvider (buildCreateKeystoreReq testController) NewRecorder)) = [] \<and>
   filter capability_call
     (calls (createKeystoreHandler NewMockProvider (buildCreateKeystoreReq testController) NewRecorder)) =
     [Call_NewRepository, Call_keystore_Create 0 testController] \<and>
   createKeystoreHandler
     (NewMockProvider\<lparr>KMSCreator := \<lambda>ctx. Inl (errorString 3 ''kms creator error'')\<rparr>)
     ((buildCreateKeystoreReq testController)
        \<lparr>Body := map_sum id (\<lambda>request. request(''passphrase'' := Some ''secret''))
                   (Body (buildCreateKeystoreReq testController))\<rparr>) NewRecorder =
   createKeystoreHandler NewMockProvider (buildCreateKeystoreReq testController) NewRecorder"
  using createKeystore_skips_provisioning
    [of NewMockProvider "buildCreateKeystoreReq testController"
      "\<lambda>ctx. Inl (errorString 3 ''kms creator error'')" "Some ''secret''" CreateKeystore]
  by (simp add: createKeystoreHandler_def step_defs test_defs)

section \<open>One response\<close>

text \<open>
  Claim C8. On every endpoint, for every provider and request, the handler returns (it is a
  total function with no panicking step) having written at most one status and made at most
  one \<^verbatim>\<open>Write\<close> of a body. When the writer accepts what is written, nothing is
  logged. When it fails, nothing reaches the client, each attempted \<^verbatim>\<open>Write\<close> is
  logged once, with the writer's error, and is not repeated.
\<close>

theorem one_response:
  "length (filter write_call (calls (handle ep p req NewRecorder))) \<le> 1 \<and>
   length (filter header_call (calls (handle ep p req NewRecorder))) \<le> 1 \<and>
   (case rw_Write p of
      None \<Rightarrow> logged (handle ep p req NewRecorder) = []
    | Some err \<Rightarrow>
        rr_Body (handle ep p req NewRecorder) = [] \<and>
        length (logged (handle ep p req NewRecorder)) =
          length (filter write_call (calls (handle ep p req NewRecorder))) \<and>
        set (logged (handle ep p req NewRecorder))
          \<subseteq> {''Unable to send an error message, '' @ Error err,
              ''Unable to send a response, '' @ Error err})"
  by (cases ep) (auto simp add: handler_defs step_defs split: sum.splits option.splits prod.splits)

text \<open>
  The tests' failing writer on the decrypt endpoint, with a decrypt capability that fails:
  one status, one attempted body, one line in the log, nothing sent.
\<close>

theorem one_response_witness:
  "length (filter write_call (calls (handle DecryptEP
      (NewMockProvider\<lparr>Decrypt := \<lambda>provider keystoreID keyID cipherText aad nonce.
           Inl (errorString 4 ''decrypt error''),
         rw_Write := Some (errorString 5 ''write error'')\<rparr>)
      (buildDecryptReq ''Y2lwaGVyIHRleHQ='' ''bm9uY2U='') NewRecorder))) = 1 \<and>
   length (filter header_call (calls (handle DecryptEP
      (NewMockProvider\<lparr>Decrypt := \<lambda>provider keystoreID keyID cipherText aad nonce.
           Inl (errorString 4 ''decrypt error''),
         rw_Write := Some (errorString 5 ''write error'')\<rparr>)
      (buildDecryptReq ''Y2lwaGVyIHRleHQ='' ''bm9uY2U='') NewRecorder))) = 1 \<and>
   rr_Body (handle DecryptEP
      (NewMockProvider\<lparr>Decrypt := \<lambda>provider keystoreID keyID cipherText aad nonce.
           Inl (errorString 4 ''decrypt error''),
         rw_Write := Some (errorString 5 ''write error'')\<rparr>)
      (buildDecryptReq ''Y2lwaGVyIHRleHQ='' ''bm9uY2U='') NewRecorder) = [] \<and>
   logged (handle DecryptEP
      (NewMockProvider\<lparr>Decrypt := \<lambda>provider keystoreID keyID cipherText aad nonce.
           Inl (errorString 4 ''decrypt error''),
         rw_Write := Some (errorString 5 ''write error'')\<rparr>)
      (buildDecryptReq ''Y2lwaGVyIHRleHQ='' ''bm9uY2U='') NewRecorder) =
     [''Unable to send an error message, write error'']"
proof -
  have c: "DecodeString ''Y2lwaGVyIHRleHQ='' = Inr ''cipher text''"
    by (simp add: base64_eval)
  have n: "DecodeString ''bm9uY2U='' = Inr ''nonce''"
    by (simp add: base64_eval)
  show ?thesis
    using one_response [of DecryptEP
      "NewMockProvider\<lparr>Decrypt := \<lambda>provider keystoreID keyID cipherText aad nonce.
           Inl (errorString 4 ''decrypt error''),
         rw_Write := Some (errorString 5 ''write error'')\<rparr>"
      "buildDecryptReq ''Y2lwaGVyIHRleHQ='' ''bm9uY2U=''"]
    by (simp add: decryptHandler_def step_defs test_defs c n)
qed

section \<open>The key-manager constructor\<close>

text \<open>
  Claim C9, as the code has it. A provisioned endpoint (create key, sign, verify, encrypt,
  decrypt) calls the key-manager constructor at most once in a request: once when the body
  parses and the keystore repository opens, and not at all otherwise. The call passes the
  \<^verbatim>\<open>keystoreID\<close> of the URL path and the \<^verbatim>\<open>passphrase\<close> member of the
  body, each the empty string when absent.
\<close>

theorem creator_called_once:
  assumes "ep \<noteq> CreateKeystore"
  shows "filter creator_call (calls (handle ep p req NewRecorder)) =
           (case Body req of
              Inl err \<Rightarrow> []
            | Inr request \<Rightarrow>
                (case NewRepository p of
                   Inl err \<Rightarrow> []
                 | Inr repo \<Rightarrow>
                     [Call_KMSCreator
                        \<lparr>KeystoreID = (case Vars req ''keystoreID'' of None \<Rightarrow> [] | Some v \<Rightarrow> v),
                         Passphrase = (case request ''passphrase'' of None \<Rightarrow> [] | Some v \<Rightarrow> v)\<rparr>]))"
  using creator_calls [OF assms, of p req]
  unfolding get_def keystoreIDQueryParam_def .

text \<open>The tests' sign request, which has no passphrase, and the same with one.\<close>

theorem creator_called_once_witness:
  "filter creator_call (calls (handle SignEP NewMockProvider (buildSignReq testMessage) NewRecorder)) =
     [Call_KMSCreator \<lparr>KeystoreID = ''bsi5ct08vcqmquc0fn5g'', Passphrase = []\<rparr>] \<and>
   filter creator_call (calls (handle SignEP NewMockProvider
       \<lparr>Host = [], Vars = testVars,
        Body = Inr [''message'' \<mapsto> testMessage, ''passphrase'' \<mapsto> ''secret'']\<rparr> NewRecorder)) =
     [Call_KMSCreator \<lparr>KeystoreID = ''bsi5ct08vcqmquc0fn5g'', Passphrase = ''secret''\<rparr>]"
proof -
  have e: "SignEP \<noteq> CreateKeystore"
    by simp
  show ?thesis
    using creator_called_once [OF e, of NewMockProvider "buildSignReq testMessage"]
      creator_called_once [OF e, of NewMockProvider
        "\<lparr>Host = [], Vars = testVars,
          Body = Inr [''message'' \<mapsto> testMessage, ''passphrase'' \<mapsto> ''secret'']\<rparr>"]
    by (simp add: NewMockProvider_def buildSignReq_def testVars_def testKeystoreID_def)
qed

text \<open>
  The claim as the spec states it (exactly once per request) fails on a request that ends
  before provisioning or in its first step: the tests' empty body, and the tests' storage
  that cannot open the store, make no call of the constructor.
\<close>

theorem creator_called_once_counterexample:
  "filter creator_call (calls (handle SignEP NewMockProvider emptyBodyReq NewRecorder)) = [] \<and>
   filter creator_call (calls (handle SignEP
       (NewMockProvider\<lparr>NewRepository := Inl (errorString 6 ''open store error'')\<rparr>)
       (buildSignReq testMessage) NewRecorder)) = []"
  by (simp add: signHandler_def step_defs test_defs)

section \<open>Base64 fields\<close>

subsection \<open>Six-bit values\<close>










subsection \<open>Decoding what was encoded\<close>











subsection \<open>What the decoder refuses\<close>










subsection \<open>The fields of the four crypto endpoints\<close>







end
